theory Spec2Isabelle
  imports Main
begin

section \<open>Principal and role model\<close>

text \<open>
  Roles are free strings in the program (the User schema restricts the stored value to
  the four names below; the controllers compare with \<open>===\<close> against string literals).
  Object ids are strings as well: every comparison in the controllers goes through
  \<open>toString()\<close>. The ids a request carries are taken to be ones the object mapper
  can read as object ids (a query by any other string throws instead of finding
  nothing).
\<close>

type_synonym oid = string

subsection \<open>The capability matrix of Permission.model.js\<close>

record read_only =
  read :: bool

record crud = read_only +
  create :: bool
  update :: bool
  delete :: bool

record crud_assign = crud +
  assign :: bool

record permission_matrix =
  manageTenants :: crud
  manageUsers :: crud
  manageProjects :: crud
  manageTasks :: crud_assign
  viewReports :: read_only
  viewAuditLogs :: read_only

definition caps :: "bool \<Rightarrow> bool \<Rightarrow> bool \<Rightarrow> bool \<Rightarrow> crud" where
  "caps c r u d = \<lparr>read = r, create = c, update = u, delete = d\<rparr>"

definition caps_assign :: "bool \<Rightarrow> bool \<Rightarrow> bool \<Rightarrow> bool \<Rightarrow> bool \<Rightarrow> crud_assign" where
  "caps_assign c r u d a = \<lparr>read = r, create = c, update = u, delete = d, assign = a\<rparr>"

definition only_read :: "bool \<Rightarrow> read_only" where
  "only_read r = \<lparr>read = r\<rparr>"

text \<open>
  \<open>permissionSchema.statics.getDefaultPermissionsForRole\<close>: the object literal
  \<open>defaultPermissions\<close>, keyed by role name, each row in the order
  create, read, update, delete (, assign) of the source.
\<close>

definition defaultPermissions :: "(string \<times> permission_matrix) list" where
  "defaultPermissions =
    [(''SUPER_ADMIN'',
        \<lparr>manageTenants = caps True True True True,
         manageUsers = caps True True True True,
         manageProjects = caps False False False False,
         manageTasks = caps_assign False False False False False,
         viewReports = only_read False,
         viewAuditLogs = only_read True\<rparr>),
     (''ORG_ADMIN'',
        \<lparr>manageTenants = caps False False False False,
         manageUsers = caps True True True True,
         manageProjects = caps True True True True,
         manageTasks = caps_assign True True True True True,
         viewReports = only_read True,
         viewAuditLogs = only_read True\<rparr>),
     (''PROJECT_MANAGER'',
        \<lparr>manageTenants = caps False False False False,
         manageUsers = caps False False False False,
         manageProjects = caps True True True False,
         manageTasks = caps_assign True True True True True,
         viewReports = only_read True,
         viewAuditLogs = only_read False\<rparr>),
     (''EMPLOYEE'',
        \<lparr>manageTenants = caps False False False False,
         manageUsers = caps False False False False,
         manageProjects = caps False True False False,
         manageTasks = caps_assign False True True False False,
         viewReports = only_read False,
         viewAuditLogs = only_read False\<rparr>)]"

text \<open>
  \<open>return defaultPermissions[role] || defaultPermissions.EMPLOYEE\<close>, for a role that
  is no property every object inherits (\<open>constructor\<close>, \<open>toString\<close>); the User
  schema admits no such role.
\<close>

definition getDefaultPermissionsForRole :: "string \<Rightarrow> permission_matrix" where
  "getDefaultPermissionsForRole role =
     (case map_of defaultPermissions role of
        Some m \<Rightarrow> m
      | None \<Rightarrow> the (map_of defaultPermissions ''EMPLOYEE''))"

subsection \<open>The table of section 4.1 of the specification\<close>

datatype category = TENANT | USER | PROJECT | TASK | REPORT | AUDIT

datatype operation = Create | Read | Update | Delete | Assign

definition CRUD :: "operation list" where
  "CRUD = [Create, Read, Update, Delete]"

text \<open>
  The specification's table, row by row, in its own words: the second definition of the
  role defaults, against which the program's is compared.
\<close>

fun spec_roleDefaults :: "string \<Rightarrow> category \<Rightarrow> operation list" where
  "spec_roleDefaults role TENANT =
     (if role = ''SUPER_ADMIN'' then CRUD else [])"
| "spec_roleDefaults role USER =
     (if role = ''SUPER_ADMIN'' then CRUD else if role = ''ORG_ADMIN'' then CRUD else [])"
| "spec_roleDefaults role PROJECT =
     (if role = ''SUPER_ADMIN'' then []
      else if role = ''ORG_ADMIN'' then CRUD
      else if role = ''PROJECT_MANAGER'' then [Create, Read, Update]
      else [Read])"
| "spec_roleDefaults role TASK =
     (if role = ''SUPER_ADMIN'' then []
      else if role = ''ORG_ADMIN'' then CRUD @ [Assign]
      else if role = ''PROJECT_MANAGER'' then CRUD @ [Assign]
      else [Read, Update])"
| "spec_roleDefaults role REPORT =
     (if role = ''ORG_ADMIN'' then [Read]
      else if role = ''PROJECT_MANAGER'' then [Read]
      else [])"
| "spec_roleDefaults role AUDIT =
     (if role = ''SUPER_ADMIN'' then [Read] else if role = ''ORG_ADMIN'' then [Read] else [])"

text \<open>
  Reading one cell of a stored matrix, \<open>matrix[category][operation]\<close>: an operation
  the matrix has no field for (assign outside tasks, anything but read on reports and
  audit logs) is \<open>undefined\<close>, hence not granted.
\<close>

fun crud_cell :: "'a crud_scheme \<Rightarrow> operation \<Rightarrow> bool" where
  "crud_cell m Create = create m"
| "crud_cell m Read = read m"
| "crud_cell m Update = update m"
| "crud_cell m Delete = delete m"
| "crud_cell m Assign = False"

fun allows :: "permission_matrix \<Rightarrow> category \<Rightarrow> operation \<Rightarrow> bool" where
  "allows m TENANT opn = crud_cell (manageTenants m) opn"
| "allows m USER opn = crud_cell (manageUsers m) opn"
| "allows m PROJECT opn = crud_cell (manageProjects m) opn"
| "allows m TASK opn = (if opn = Assign then assign (manageTasks m) else crud_cell (manageTasks m) opn)"
| "allows m REPORT opn = (opn = Read \<and> read (viewReports m))"
| "allows m AUDIT opn = (opn = Read \<and> read (viewAuditLogs m))"

section \<open>Stored documents\<close>

subsection \<open>JSON values\<close>

text \<open>
  Request bodies and project documents are untyped in the program: \<open>updateProject\<close>
  writes \<open>project[key] = req.body[key]\<close> for keys it reads off the body. They are
  modelled as JSON values; an object is the list of its entries in key order.
\<close>

datatype jsval =
    JUndefined
  | JNull
  | JBool bool
  | JNum int
  | JStr string
  | JArr "jsval list"
  | JObj "(string \<times> jsval) list"

type_synonym doc = "(string \<times> jsval) list"

text \<open>\<open>obj[key]\<close>: a missing key reads as \<open>undefined\<close>.\<close>

definition getf :: "doc \<Rightarrow> string \<Rightarrow> jsval" where
  "getf d k = (case map_of d k of Some v \<Rightarrow> v | None \<Rightarrow> JUndefined)"

text \<open>\<open>obj[key] = v\<close>: overwrites the entry in place, or appends a new one.\<close>

fun setf :: "doc \<Rightarrow> string \<Rightarrow> jsval \<Rightarrow> doc" where
  "setf [] k v = [(k, v)]"
| "setf ((k', v') # d) k v = (if k' = k then (k, v) # d else (k', v') # setf d k v)"

text \<open>\<open>delete obj[key]\<close>\<close>

definition delf :: "doc \<Rightarrow> string \<Rightarrow> doc" where
  "delf d k = filter (\<lambda>kv. fst kv \<noteq> k) d"

text \<open>\<open>v.key\<close> on a value that is not \<open>null\<close> or \<open>undefined\<close>.\<close>

definition field :: "jsval \<Rightarrow> string \<Rightarrow> jsval" where
  "field v k = (case v of JObj d \<Rightarrow> getf d k | _ \<Rightarrow> JUndefined)"

definition nullish :: "jsval \<Rightarrow> bool" where
  "nullish v = (v = JUndefined \<or> v = JNull)"

definition js_truthy :: "jsval \<Rightarrow> bool" where
  "js_truthy v =
     (case v of
        JUndefined \<Rightarrow> False
      | JNull \<Rightarrow> False
      | JBool b \<Rightarrow> b
      | JNum n \<Rightarrow> n \<noteq> 0
      | JStr s \<Rightarrow> s \<noteq> []
      | JArr _ \<Rightarrow> True
      | JObj _ \<Rightarrow> True)"

text \<open>\<open>a || b\<close>\<close>

definition js_or :: "jsval \<Rightarrow> jsval \<Rightarrow> jsval" where
  "js_or a b = (if js_truthy a then a else b)"

text \<open>
  \<open>v?.toString()\<close> at a path that holds an ObjectId: the id's string, or
  \<open>undefined\<close> when the path is unset. Ids are stored as their strings.
\<close>

definition oid_of :: "jsval \<Rightarrow> oid option" where
  "oid_of v = (case v of JStr s \<Rightarrow> Some s | _ \<Rightarrow> None)"

text \<open>The same two operators on a string that may be \<open>undefined\<close>.\<close>

definition truthy :: "string option \<Rightarrow> bool" where
  "truthy a = (case a of None \<Rightarrow> False | Some s \<Rightarrow> s \<noteq> [])"

definition or_else :: "string option \<Rightarrow> string option \<Rightarrow> string option" where
  "or_else a b = (if truthy a then a else b)"

subsection \<open>Collections\<close>

text \<open>
  User.model.js, Task.model.js, Permission.model.js and AuditLog.model.js, with the paths
  the controllers below read or write. Projects (Project.model.js) are kept as JSON
  documents with the paths \<open>_id\<close>, \<open>tenantId\<close>, \<open>ownerId\<close>, \<open>managerId\<close>,
  \<open>members\<close> and the rest of the schema.
\<close>

record user_doc =
  usr_id :: oid
  usr_email :: string
  usr_firstName :: string
  usr_lastName :: string
  usr_role :: string
  usr_tenantId :: "oid option"
  usr_isActive :: bool

record task_doc =
  task_id :: oid
  task_title :: string
  task_tenantId :: oid
  task_projectId :: oid
  task_status :: string
  task_assigneeId :: "oid option"
  task_reporterId :: oid

record permission_doc =
  perm_userId :: oid
  perm_permissions :: permission_matrix
  perm_isActive :: bool

record audit_doc =
  aud_tenantId :: oid
  aud_userId :: oid
  aud_action :: string
  aud_resourceType :: string
  aud_resourceId :: "oid option"
  aud_timestamp :: nat

record db =
  users :: "user_doc list"
  permissionDocs :: "permission_doc list"
  projects :: "doc list"
  tasks :: "task_doc list"
  auditLogs :: "audit_doc list"

text \<open>The enums of the schemas, checked when a document is saved.\<close>

definition role_enum :: "string list" where
  "role_enum = [''SUPER_ADMIN'', ''ORG_ADMIN'', ''PROJECT_MANAGER'', ''EMPLOYEE'']"

definition status_enum :: "string list" where
  "status_enum = [''TODO'', ''IN_PROGRESS'', ''IN_REVIEW'', ''DONE'', ''BLOCKED'', ''CANCELLED'']"

text \<open>\<open>updateOne\<close> and \<open>deleteOne\<close>: the first document the filter matches.\<close>

fun replace_first :: "('a \<Rightarrow> bool) \<Rightarrow> 'a \<Rightarrow> 'a list \<Rightarrow> 'a list" where
  "replace_first P y [] = []"
| "replace_first P y (x # xs) = (if P x then y # xs else x # replace_first P y xs)"

fun remove_first :: "('a \<Rightarrow> bool) \<Rightarrow> 'a list \<Rightarrow> 'a list" where
  "remove_first P [] = []"
| "remove_first P (x # xs) = (if P x then xs else x # remove_first P xs)"

section \<open>Requests and replies\<close>

text \<open>
  \<open>req.user\<close> is the payload of the verified token (\<open>generateTokens\<close>: id, role,
  tenantId), absent when no credential was accepted. \<open>req_id\<close> is the route parameter
  (\<open>req.params.id\<close>, \<open>req.params.userId\<close>); \<open>req_time\<close> is what \<open>new Date()\<close>
  reads while the request is handled. The body and the query parameters a controller
  reads are typed per controller.
\<close>

record jwt_user =
  user_id :: oid
  user_role :: string
  user_tenantId :: "oid option"

record ('b, 'q) request =
  req_user :: "jwt_user option"
  req_hdr_tenant :: "string option"
  req_qry_tenant :: "string option"
  req_host :: "string option"
  req_tenantId :: "string option"
  req_queryFilter :: "string option"
  req_id :: string
  req_body :: 'b
  req_query :: 'q
  req_time :: nat

datatype payload =
    Message string
  | PermissionData oid permission_matrix bool
  | UserData user_doc
  | TaskData task_doc
  | ProjectData doc
  | AuditPage "audit_doc list" nat

text \<open>
  \<open>Reply status payload\<close> is \<open>res.status(status).json(...)\<close>; \<open>Raised\<close> is an
  exception handed to \<open>next(error)\<close>; \<open>NoReply\<close> is a handler that returns without
  answering.
\<close>

datatype reply = Reply nat payload | Raised | NoReply

text \<open>The replies the specification's error taxonomy names, as the program words them.\<close>

definition TenantRequired :: reply where
  "TenantRequired = Reply 400 (Message ''Tenant ID is required'')"

definition TenantAccessDenied :: reply where
  "TenantAccessDenied = Reply 403 (Message ''Access denied to this tenant'')"

definition SuperAdminScopeViolation :: reply where
  "SuperAdminScopeViolation =
     Reply 403 (Message ''SUPER_ADMIN cannot perform tenant-level operations. Use tenant management instead.'')"

definition InsufficientCapability :: reply where
  "InsufficientCapability = Reply 403 (Message ''Access denied. Insufficient permissions.'')"

definition CannotModifySelf :: reply where
  "CannotModifySelf = Reply 403 (Message ''Cannot modify your own permissions'')"

definition NotFound :: "string \<Rightarrow> reply" where
  "NotFound what = Reply 404 (Message (what @ '' not found''))"

text \<open>
  Section 6 of the specification: every Deny reason is answered with status 403 (and a
  missing resource with 404).
\<close>

definition denied :: "reply \<Rightarrow> bool" where
  "denied r = (case r of Reply status _ \<Rightarrow> status = 403 | _ \<Rightarrow> False)"

text \<open>A middleware either answers or calls \<open>next()\<close> with the request.\<close>

definition next_mw :: "reply + 'a \<Rightarrow> ('a \<Rightarrow> reply + 'c) \<Rightarrow> reply + 'c" where
  "next_mw r f = (case r of Inl e \<Rightarrow> Inl e | Inr x \<Rightarrow> f x)"

section \<open>Middleware\<close>

text \<open>
  auth.middleware.js, \<open>authenticate\<close>. Verifying the token is the credential
  verifier's work; a request whose credential was refused has no \<open>req.user\<close> and is
  answered 401, worded after the refusal (no token, a revoked, an expired or an invalid
  one); the wording for no token stands for the four.
\<close>

definition authenticate :: "('b, 'q) request \<Rightarrow> reply + ('b, 'q) request" where
  "authenticate req =
     (case req_user req of
        None \<Rightarrow> Inl (Reply 401 (Message ''No token provided, authorization denied''))
      | Some u \<Rightarrow> Inr req)"

text \<open>auth.middleware.js, \<open>authorize(...roles)\<close>\<close>

definition authorize :: "string list \<Rightarrow> ('b, 'q) request \<Rightarrow> reply + ('b, 'q) request" where
  "authorize roles req =
     (case req_user req of
        None \<Rightarrow> Inl (Reply 401 (Message ''Unauthorized''))
      | Some u \<Rightarrow>
          if user_role u \<notin> set roles then Inl InsufficientCapability else Inr req)"

text \<open>
  tenant.middleware.js, \<open>resolveTenant\<close>. First the tenant id:
  \<open>req.headers['x-tenant-id'] || req.query.tenantId || req.headers.host?.split('.')[0]\<close>,
  then the credential's tenant when that is falsy and the request has a user.
\<close>

definition subdomain :: "string option \<Rightarrow> string option" where
  "subdomain host = map_option (takeWhile (\<lambda>c. c \<noteq> CHR ''.'')) host"

definition tenant_indicator :: "('b, 'q) request \<Rightarrow> string option" where
  "tenant_indicator req =
     or_else (or_else (req_hdr_tenant req) (req_qry_tenant req)) (subdomain (req_host req))"

definition resolved_tenantId :: "('b, 'q) request \<Rightarrow> string option" where
  "resolved_tenantId req =
     (let tenantId = tenant_indicator req in
      case req_user req of
        None \<Rightarrow> tenantId
      | Some u \<Rightarrow> if \<not> truthy tenantId then user_tenantId u else tenantId)"

definition resolveTenant :: "('b, 'q) request \<Rightarrow> reply + ('b, 'q) request" where
  "resolveTenant req =
     (let tenantId = resolved_tenantId req in
      if \<not> truthy tenantId then Inl TenantRequired
      else
        (case req_user req of
           None \<Rightarrow> Inr (req\<lparr>req_tenantId := tenantId\<rparr>)
         | Some u \<Rightarrow>
             if user_tenantId u \<noteq> tenantId \<and> user_role u \<noteq> ''SUPER_ADMIN''
             then Inl TenantAccessDenied
             else Inr (req\<lparr>req_tenantId := tenantId\<rparr>)))"

text \<open>tenant.middleware.js, \<open>tenantScope\<close>\<close>

definition tenantScope :: "('b, 'q) request \<Rightarrow> reply + ('b, 'q) request" where
  "tenantScope req =
     Inr (if truthy (req_tenantId req)
          then req\<lparr>req_queryFilter := req_tenantId req\<rparr>
          else req)"

text \<open>rbac.middleware.js, \<open>preventSuperAdminTenantWork\<close>\<close>

definition preventSuperAdminTenantWork :: "('b, 'q) request \<Rightarrow> reply + ('b, 'q) request" where
  "preventSuperAdminTenantWork req =
     (case req_user req of
        None \<Rightarrow> Inr req
      | Some u \<Rightarrow>
          if user_role u = ''SUPER_ADMIN'' then Inl SuperAdminScopeViolation else Inr req)"

text \<open>
  The ownership predicates the controllers and \<open>restrictToOwnProjects\<close> repeat:
  \<open>project.managerId?.toString() === id || project.ownerId?.toString() === id\<close> and
  \<open>project.members?.some(m => m.userId?.toString() === id && m.role === 'LEAD')\<close>.
\<close>

definition isManager :: "doc \<Rightarrow> oid \<Rightarrow> bool" where
  "isManager project uid =
     (oid_of (getf project ''managerId'') = Some uid \<or> oid_of (getf project ''ownerId'') = Some uid)"

definition isLeadMember :: "doc \<Rightarrow> oid \<Rightarrow> bool" where
  "isLeadMember project uid =
     (case getf project ''members'' of
        JArr ms \<Rightarrow>
          list_ex (\<lambda>m. oid_of (field m ''userId'') = Some uid \<and> field m ''role'' = JStr ''LEAD'') ms
      | _ \<Rightarrow> False)"

text \<open>Queries by id and tenant: \<open>findOne({ _id: req.params.id, tenantId: req.tenantId })\<close>.\<close>

definition findTask :: "db \<Rightarrow> ('b, 'q) request \<Rightarrow> task_doc option" where
  "findTask d req =
     find (\<lambda>t. task_id t = req_id req \<and> Some (task_tenantId t) = req_tenantId req) (tasks d)"

definition findProject :: "db \<Rightarrow> ('b, 'q) request \<Rightarrow> doc option" where
  "findProject d req =
     find (\<lambda>p. oid_of (getf p ''_id'') = Some (req_id req)
              \<and> req_tenantId req \<noteq> None \<and> oid_of (getf p ''tenantId'') = req_tenantId req)
       (projects d)"

text \<open>\<open>Project.findById(task.projectId)\<close>\<close>

definition findProjectById :: "db \<Rightarrow> oid \<Rightarrow> doc option" where
  "findProjectById d pid = find (\<lambda>p. oid_of (getf p ''_id'') = Some pid) (projects d)"

text \<open>
  The PROJECT_MANAGER branch of the task controllers: the project of the task is
  fetched, and only if it exists are the ownership predicates consulted.
\<close>

definition notManagedBy :: "db \<Rightarrow> oid \<Rightarrow> oid \<Rightarrow> bool" where
  "notManagedBy d pid uid =
     (case findProjectById d pid of
        None \<Rightarrow> False
      | Some project \<Rightarrow> \<not> isManager project uid \<and> \<not> isLeadMember project uid)"

text \<open>rbac.middleware.js, \<open>restrictToOwnProjects\<close> (the route's \<open>:id\<close> is the project id)\<close>

definition restrictToOwnProjects :: "db \<Rightarrow> ('b, 'q) request \<Rightarrow> reply + ('b, 'q) request" where
  "restrictToOwnProjects d req =
     (case req_user req of
        None \<Rightarrow> Inr req
      | Some u \<Rightarrow>
          if user_role u = ''PROJECT_MANAGER'' \<and> req_id req \<noteq> [] then
            (case findProject d req of
               None \<Rightarrow> Inl (NotFound ''Project'')
             | Some project \<Rightarrow>
                 if \<not> isManager project (user_id u) \<and> \<not> isLeadMember project (user_id u)
                 then Inl (Reply 403 (Message ''You can only manage projects you own or manage''))
                 else Inr req)
          else Inr req)"

text \<open>rbac.middleware.js, \<open>restrictToOwnTasks\<close> (the route's \<open>:id\<close> is the task id)\<close>

definition restrictToOwnTasks :: "db \<Rightarrow> ('b, 'q) request \<Rightarrow> reply + ('b, 'q) request" where
  "restrictToOwnTasks d req =
     (case req_user req of
        None \<Rightarrow> Inr req
      | Some u \<Rightarrow>
          if user_role u = ''EMPLOYEE'' \<and> req_id req \<noteq> [] then
            (case findTask d req of
               None \<Rightarrow> Inl (NotFound ''Task'')
             | Some task \<Rightarrow>
                 if task_assigneeId task \<noteq> Some (user_id u)
                 then Inl (Reply 403 (Message ''You can only access tasks assigned to you''))
                 else Inr req)
          else Inr req)"

text \<open>
  The \<open>router.use\<close> prefix that task.routes.js, project.routes.js, report.routes.js and
  audit.routes.js share: authenticate, resolveTenant, tenantScope,
  preventSuperAdminTenantWork. user.routes.js stops after tenantScope.
\<close>

definition tenantWorkRouter :: "('b, 'q) request \<Rightarrow> reply + ('b, 'q) request" where
  "tenantWorkRouter req =
     next_mw (next_mw (next_mw (authenticate req) resolveTenant) tenantScope)
       preventSuperAdminTenantWork"

definition userRouter :: "('b, 'q) request \<Rightarrow> reply + ('b, 'q) request" where
  "userRouter req = next_mw (next_mw (authenticate req) resolveTenant) tenantScope"

text \<open>
  permission.routes.js: authenticate, then resolveTenant for an ORG_ADMIN only, then
  \<open>authorize('SUPER_ADMIN', 'ORG_ADMIN')\<close> on every route.
\<close>

definition permissionRouter :: "('b, 'q) request \<Rightarrow> reply + ('b, 'q) request" where
  "permissionRouter req =
     next_mw
       (next_mw (authenticate req)
          (\<lambda>r. case req_user r of
                  None \<Rightarrow> Inr r
                | Some u \<Rightarrow> if user_role u = ''ORG_ADMIN'' then resolveTenant r else Inr r))
       (authorize [''SUPER_ADMIN'', ''ORG_ADMIN''])"

text \<open>Running a controller behind its middleware.\<close>

definition serve ::
  "reply + ('b, 'q) request \<Rightarrow> (db \<Rightarrow> ('b, 'q) request \<Rightarrow> reply \<times> db) \<Rightarrow> db \<Rightarrow> reply \<times> db" where
  "serve r controller d = (case r of Inl e \<Rightarrow> (e, d) | Inr req \<Rightarrow> controller d req)"

section \<open>Audit trail recorder\<close>

text \<open>
  audit.service.js, \<open>createAuditLog\<close>: appends one entry; when the entry cannot be
  created (the required tenant id is missing) the failure is logged and the caller goes
  on. The before/after snapshots and the request metadata of an entry are payload no
  controller reads back; the stored entry keeps the paths the listings query.
\<close>

definition createAuditLog ::
  "db \<Rightarrow> string option \<Rightarrow> oid \<Rightarrow> string \<Rightarrow> string \<Rightarrow> oid \<Rightarrow> nat \<Rightarrow> db" where
  "createAuditLog d tenantId userId action resourceType resourceId now =
     (case tenantId of
        None \<Rightarrow> d
      | Some t \<Rightarrow>
          d\<lparr>auditLogs := auditLogs d @
               [\<lparr>aud_tenantId = t, aud_userId = userId, aud_action = action,
                 aud_resourceType = resourceType, aud_resourceId = Some resourceId,
                 aud_timestamp = now\<rparr>]\<rparr>)"

section \<open>Task controller\<close>

text \<open>Task.model.js, \<open>taskSchema.methods.canTransitionTo\<close>\<close>

definition validTransitions :: "(string \<times> string list) list" where
  "validTransitions =
     [(''TODO'', [''IN_PROGRESS'', ''CANCELLED'']),
      (''IN_PROGRESS'', [''IN_REVIEW'', ''BLOCKED'', ''CANCELLED'']),
      (''IN_REVIEW'', [''DONE'', ''IN_PROGRESS'']),
      (''DONE'', [''IN_PROGRESS'']),
      (''BLOCKED'', [''IN_PROGRESS'', ''CANCELLED'']),
      (''CANCELLED'', [])]"

definition canTransitionTo :: "task_doc \<Rightarrow> string \<Rightarrow> bool" where
  "canTransitionTo task newStatus =
     (case map_of validTransitions (task_status task) of
        None \<Rightarrow> False
      | Some targets \<Rightarrow> newStatus \<in> set targets)"

text \<open>
  task.controller.js, \<open>updateTaskStatus\<close>; the body is \<open>{ status }\<close>. The call of
  \<open>canTransitionTo\<close> is commented out in the source, so the model has none. A handler
  that reads \<open>req.user.id\<close> without a user throws after what it has already saved.
\<close>

definition updateTaskStatus :: "db \<Rightarrow> (string, 'q) request \<Rightarrow> reply \<times> db" where
  "updateTaskStatus d req =
     (let status = req_body req in
      case findTask d req of
        None \<Rightarrow> (NotFound ''Task'', d)
      | Some task \<Rightarrow>
          if (case req_user req of
                None \<Rightarrow> False
              | Some u \<Rightarrow> user_role u = ''EMPLOYEE'' \<and> task_assigneeId task \<noteq> Some (user_id u))
          then (Reply 403 (Message ''You can only update status of tasks assigned to you''), d)
          else if (case req_user req of
                None \<Rightarrow> False
              | Some u \<Rightarrow> user_role u = ''PROJECT_MANAGER''
                          \<and> notManagedBy d (task_projectId task) (user_id u))
          then (Reply 403 (Message ''You can only update status of tasks in projects you manage''), d)
          else if status \<notin> set status_enum then (Raised, d)
          else
            (let task' = task\<lparr>task_status := status\<rparr>;
                 saved = d\<lparr>tasks := replace_first (\<lambda>t. task_id t = task_id task) task' (tasks d)\<rparr>
             in case req_user req of
                  None \<Rightarrow> (Raised, saved)
                | Some u \<Rightarrow>
                    (let logged = createAuditLog saved (req_tenantId req) (user_id u)
                                    ''UPDATE'' ''TASK'' (task_id task) (req_time req)
                     in if user_role u = ''EMPLOYEE'' \<and> task_status task \<noteq> status
                           \<and> find (\<lambda>x. usr_id x = user_id u) (users d) = None
                        then (NoReply, logged)
                        else (Reply 200 (TaskData task'), logged))))"

text \<open>task.controller.js, \<open>deleteTask\<close>\<close>

definition deleteTask :: "db \<Rightarrow> ('b, 'q) request \<Rightarrow> reply \<times> db" where
  "deleteTask d req =
     (case findTask d req of
        None \<Rightarrow> (NotFound ''Task'', d)
      | Some task \<Rightarrow>
          if (case req_user req of
                None \<Rightarrow> False
              | Some u \<Rightarrow> user_role u = ''PROJECT_MANAGER''
                          \<and> notManagedBy d (task_projectId task) (user_id u))
          then (Reply 403 (Message ''You can only delete tasks in projects you manage''), d)
          else
            (let removed = d\<lparr>tasks := remove_first (\<lambda>t. task_id t = task_id task) (tasks d)\<rparr>
             in case req_user req of
                  None \<Rightarrow> (Raised, removed)
                | Some u \<Rightarrow>
                    (Reply 200 (Message ''Task deleted successfully''),
                     createAuditLog removed (req_tenantId req) (user_id u)
                       ''DELETE'' ''TASK'' (task_id task) (req_time req))))"

section \<open>User controller\<close>

definition callerHasRole :: "('b, 'q) request \<Rightarrow> string \<Rightarrow> bool" where
  "callerHasRole req role = (case req_user req of None \<Rightarrow> False | Some u \<Rightarrow> user_role u = role)"

text \<open>
  The query of \<open>getUserById\<close>, \<open>updateUser\<close>, \<open>deleteUser\<close> and \<open>updateUserRole\<close>:
  \<open>{ _id: req.params.id, tenantId: req.tenantId }\<close>, with
  \<open>role: { $ne: 'SUPER_ADMIN' }\<close> added for an ORG_ADMIN caller.
\<close>

definition findUserScoped :: "db \<Rightarrow> ('b, 'q) request \<Rightarrow> user_doc option" where
  "findUserScoped d req =
     find (\<lambda>x. usr_id x = req_id req
              \<and> req_tenantId req \<noteq> None \<and> usr_tenantId x = req_tenantId req
              \<and> (if callerHasRole req ''ORG_ADMIN'' then usr_role x \<noteq> ''SUPER_ADMIN'' else True))
       (users d)"

definition getUserById :: "db \<Rightarrow> ('b, 'q) request \<Rightarrow> reply \<times> db" where
  "getUserById d req =
     (case findUserScoped d req of
        None \<Rightarrow> (NotFound ''User'', d)
      | Some user \<Rightarrow> (Reply 200 (UserData user), d))"

text \<open>The body of \<open>updateUser\<close>: the user paths it may carry; \<open>None\<close> is an absent key.\<close>

record user_patch =
  patch_email :: "string option"
  patch_firstName :: "string option"
  patch_lastName :: "string option"
  patch_role :: "string option"
  patch_tenantId :: "string option"
  patch_isActive :: "bool option"

text \<open>
  \<open>Object.assign(user, req.body)\<close> for a body of these paths. What the setters of
  the schema do to a value (an email is trimmed and lower-cased) is the object mapper's
  work.
\<close>

definition assignUser :: "user_doc \<Rightarrow> user_patch \<Rightarrow> user_doc" where
  "assignUser user body =
     user\<lparr>usr_email := (case patch_email body of None \<Rightarrow> usr_email user | Some v \<Rightarrow> v),
          usr_firstName := (case patch_firstName body of None \<Rightarrow> usr_firstName user | Some v \<Rightarrow> v),
          usr_lastName := (case patch_lastName body of None \<Rightarrow> usr_lastName user | Some v \<Rightarrow> v),
          usr_role := (case patch_role body of None \<Rightarrow> usr_role user | Some v \<Rightarrow> v),
          usr_tenantId := (case patch_tenantId body of None \<Rightarrow> usr_tenantId user | Some v \<Rightarrow> Some v),
          usr_isActive := (case patch_isActive body of None \<Rightarrow> usr_isActive user | Some v \<Rightarrow> v)\<rparr>"

text \<open>
  \<open>user.save()\<close>: rejected when the role is outside the schema's enum (of the
  schema's checks, the one on a path these controllers decide by).
\<close>

definition saveUser :: "db \<Rightarrow> user_doc \<Rightarrow> db option" where
  "saveUser d user =
     (if usr_role user \<notin> set role_enum then None
      else Some (d\<lparr>users := replace_first (\<lambda>x. usr_id x = usr_id user) user (users d)\<rparr>))"

definition updateUser :: "db \<Rightarrow> (user_patch, 'q) request \<Rightarrow> reply \<times> db" where
  "updateUser d req =
     (case findUserScoped d req of
        None \<Rightarrow> (NotFound ''User'', d)
      | Some user \<Rightarrow>
          if callerHasRole req ''ORG_ADMIN'' \<and> patch_role (req_body req) = Some ''SUPER_ADMIN''
          then (Reply 403 (Message ''You do not have permission to assign SUPER_ADMIN role''), d)
          else
            (case saveUser d (assignUser user (req_body req)) of
               None \<Rightarrow> (Raised, d)
             | Some saved \<Rightarrow>
                 (case req_user req of
                    None \<Rightarrow> (Raised, saved)
                  | Some u \<Rightarrow>
                      (Reply 200 (UserData (assignUser user (req_body req))),
                       createAuditLog saved (req_tenantId req) (user_id u)
                         ''UPDATE'' ''USER'' (usr_id user) (req_time req)))))"

definition deleteUser :: "db \<Rightarrow> ('b, 'q) request \<Rightarrow> reply \<times> db" where
  "deleteUser d req =
     (case findUserScoped d req of
        None \<Rightarrow> (NotFound ''User'', d)
      | Some user \<Rightarrow>
          (let removed = d\<lparr>users := remove_first (\<lambda>x. usr_id x = usr_id user) (users d)\<rparr>
           in case req_user req of
                None \<Rightarrow> (Raised, removed)
              | Some u \<Rightarrow>
                  (Reply 200 (Message ''User deleted successfully''),
                   createAuditLog removed (req_tenantId req) (user_id u)
                     ''DELETE'' ''USER'' (usr_id user) (req_time req))))"

text \<open>\<open>updateUserRole\<close>; the body is \<open>{ role }\<close>.\<close>

definition updateUserRole :: "db \<Rightarrow> (string, 'q) request \<Rightarrow> reply \<times> db" where
  "updateUserRole d req =
     (let role = req_body req in
      case findUserScoped d req of
        None \<Rightarrow> (NotFound ''User'', d)
      | Some user \<Rightarrow>
          if callerHasRole req ''ORG_ADMIN'' \<and> role = ''SUPER_ADMIN''
          then (Reply 403 (Message ''You do not have permission to assign SUPER_ADMIN role''), d)
          else
            (case saveUser d (user\<lparr>usr_role := role\<rparr>) of
               None \<Rightarrow> (Raised, d)
             | Some saved \<Rightarrow>
                 (case req_user req of
                    None \<Rightarrow> (Raised, saved)
                  | Some u \<Rightarrow>
                      (Reply 200 (UserData (user\<lparr>usr_role := role\<rparr>)),
                       createAuditLog saved (req_tenantId req) (user_id u)
                         ''UPDATE'' ''USER'' (usr_id user) (req_time req)))))"

section \<open>Permission controller\<close>

text \<open>
  \<open>Permission.findOneAndUpdate({ userId, isActive: true }, { permissions }, { upsert: true })\<close>:
  the active record of the user is overwritten; without one a record is inserted, which
  the unique index on \<open>userId\<close> refuses when an inactive record of the user exists.
\<close>

definition upsertPermission ::
  "permission_doc list \<Rightarrow> oid \<Rightarrow> permission_matrix \<Rightarrow> permission_doc list option" where
  "upsertPermission ps userId permissions =
     (case find (\<lambda>p. perm_userId p = userId \<and> perm_isActive p) ps of
        Some found \<Rightarrow>
          Some (replace_first (\<lambda>p. perm_userId p = userId \<and> perm_isActive p)
                  (found\<lparr>perm_permissions := permissions\<rparr>) ps)
      | None \<Rightarrow>
          if list_ex (\<lambda>p. perm_userId p = userId) ps then None
          else Some (ps @ [\<lparr>perm_userId = userId, perm_permissions = permissions,
                            perm_isActive = True\<rparr>]))"

text \<open>\<open>Permission.findOne({ userId, isActive: true })\<close>\<close>

definition activePermission :: "db \<Rightarrow> oid \<Rightarrow> permission_doc option" where
  "activePermission d userId =
     find (\<lambda>p. perm_userId p = userId \<and> perm_isActive p) (permissionDocs d)"

text \<open>permission.controller.js, \<open>getUserPermissions\<close> (\<open>:userId\<close> is \<open>req_id\<close>)\<close>

definition getUserPermissions :: "db \<Rightarrow> ('b, 'q) request \<Rightarrow> reply \<times> db" where
  "getUserPermissions d req =
     (let userId = req_id req in
      case find (\<lambda>x. usr_id x = userId) (users d) of
        None \<Rightarrow> (NotFound ''User'', d)
      | Some user \<Rightarrow>
          (case req_user req of
             None \<Rightarrow> (Raised, d)
           | Some u \<Rightarrow>
               if user_role u = ''ORG_ADMIN''
                  \<and> usr_role user \<noteq> ''PROJECT_MANAGER'' \<and> usr_role user \<noteq> ''EMPLOYEE''
               then (Reply 403 (Message
                       ''You can only view permissions for PROJECT_MANAGER and EMPLOYEE users''), d)
               else if user_role u = ''ORG_ADMIN'' \<and> usr_tenantId user \<noteq> req_tenantId req
               then (Reply 403 (Message
                       ''You can only view permissions for users in your tenant''), d)
               else
                 (case activePermission d userId of
                    None \<Rightarrow>
                      (Reply 200 (PermissionData userId
                                    (getDefaultPermissionsForRole (usr_role user)) True), d)
                  | Some permission \<Rightarrow>
                      (Reply 200 (PermissionData (perm_userId permission)
                                    (perm_permissions permission) False), d))))"

text \<open>
  permission.controller.js, \<open>updateUserPermissions\<close>; the body is \<open>{ permissions }\<close>,
  cast to the schema's matrix. The socket notifications that follow the write are the
  notification publisher's work (with a publisher that is not running, or without a
  record of the caller, they turn the reply into an error after the record is written),
  here and in \<open>resetUserPermissions\<close>.
\<close>

definition updateUserPermissions :: "db \<Rightarrow> (permission_matrix, 'q) request \<Rightarrow> reply \<times> db" where
  "updateUserPermissions d req =
     (let userId = req_id req; permissions = req_body req in
      case find (\<lambda>x. usr_id x = userId) (users d) of
        None \<Rightarrow> (NotFound ''User'', d)
      | Some user \<Rightarrow>
          (case req_user req of
             None \<Rightarrow> (Raised, d)
           | Some u \<Rightarrow>
               if user_role u = ''ORG_ADMIN''
                  \<and> usr_role user \<noteq> ''PROJECT_MANAGER'' \<and> usr_role user \<noteq> ''EMPLOYEE''
               then (Reply 403 (Message
                       ''You can only manage permissions for PROJECT_MANAGER and EMPLOYEE users''), d)
               else if user_role u = ''ORG_ADMIN'' \<and> usr_tenantId user \<noteq> req_tenantId req
               then (Reply 403 (Message
                       ''You can only manage permissions for users in your tenant''), d)
               else if user_role u = ''SUPER_ADMIN'' \<and> userId = user_id u
               then (CannotModifySelf, d)
               else if user_role u = ''ORG_ADMIN'' \<and> userId = user_id u
               then (CannotModifySelf, d)
               else
                 (case upsertPermission (permissionDocs d) userId permissions of
                    None \<Rightarrow> (Raised, d)
                  | Some ps \<Rightarrow>
                      (Reply 200 (PermissionData userId permissions False),
                       d\<lparr>permissionDocs := ps\<rparr>))))"

text \<open>permission.controller.js, \<open>resetUserPermissions\<close>\<close>

definition resetUserPermissions :: "db \<Rightarrow> ('b, 'q) request \<Rightarrow> reply \<times> db" where
  "resetUserPermissions d req =
     (let userId = req_id req in
      case find (\<lambda>x. usr_id x = userId) (users d) of
        None \<Rightarrow> (NotFound ''User'', d)
      | Some user \<Rightarrow>
          (case req_user req of
             None \<Rightarrow> (Raised, d)
           | Some u \<Rightarrow>
               if user_role u = ''ORG_ADMIN''
                  \<and> usr_role user \<noteq> ''PROJECT_MANAGER'' \<and> usr_role user \<noteq> ''EMPLOYEE''
               then (Reply 403 (Message
                       ''You can only reset permissions for PROJECT_MANAGER and EMPLOYEE users''), d)
               else if user_role u = ''ORG_ADMIN'' \<and> usr_tenantId user \<noteq> req_tenantId req
               then (Reply 403 (Message
                       ''You can only reset permissions for users in your tenant''), d)
               else
                 (let defaultPermissions = getDefaultPermissionsForRole (usr_role user) in
                  case upsertPermission (permissionDocs d) userId defaultPermissions of
                    None \<Rightarrow> (Raised, d)
                  | Some ps \<Rightarrow>
                      (Reply 200 (PermissionData userId defaultPermissions False),
                       d\<lparr>permissionDocs := ps\<rparr>))))"

section \<open>Audit controller\<close>

text \<open>
  The query parameters of \<open>getAuditLogs\<close>; \<open>page\<close> and \<open>limit\<close> with their defaults
  applied, the dates as the instants \<open>new Date(...)\<close> parses them to.
\<close>

record audit_query =
  q_page :: nat
  q_limit :: nat
  q_action :: "string option"
  q_resourceType :: "string option"
  q_userId :: "string option"
  q_startDate :: "nat option"
  q_endDate :: "nat option"

definition superAdminIds :: "db \<Rightarrow> oid list" where
  "superAdminIds d = map usr_id (filter (\<lambda>x. usr_role x = ''SUPER_ADMIN'') (users d))"

text \<open>The filter \<open>query\<close> of \<open>getAuditLogs\<close>, and the filter \<open>countQuery\<close> it builds again.\<close>

definition auditQuery :: "db \<Rightarrow> ('b, audit_query) request \<Rightarrow> audit_doc \<Rightarrow> bool" where
  "auditQuery d req l =
     (let q = req_query req in
      Some (aud_tenantId l) = req_tenantId req
      \<and> (if truthy (q_action q) then Some (aud_action l) = q_action q else True)
      \<and> (if truthy (q_resourceType q) then Some (aud_resourceType l) = q_resourceType q else True)
      \<and> (case q_startDate q of None \<Rightarrow> True | Some s \<Rightarrow> s \<le> aud_timestamp l)
      \<and> (case q_endDate q of None \<Rightarrow> True | Some e \<Rightarrow> aud_timestamp l \<le> e)
      \<and> (if superAdminIds d \<noteq> []
         then (if truthy (q_userId q)
               then Some (aud_userId l) = q_userId q \<and> aud_userId l \<notin> set (superAdminIds d)
               else aud_userId l \<notin> set (superAdminIds d))
         else (if truthy (q_userId q) then Some (aud_userId l) = q_userId q else True)))"

definition auditCountQuery :: "db \<Rightarrow> ('b, audit_query) request \<Rightarrow> audit_doc \<Rightarrow> bool" where
  "auditCountQuery d req l =
     (let q = req_query req in
      Some (aud_tenantId l) = req_tenantId req
      \<and> (if truthy (q_action q) then Some (aud_action l) = q_action q else True)
      \<and> (if truthy (q_resourceType q) then Some (aud_resourceType l) = q_resourceType q else True)
      \<and> (case q_startDate q of None \<Rightarrow> True | Some s \<Rightarrow> s \<le> aud_timestamp l)
      \<and> (case q_endDate q of None \<Rightarrow> True | Some e \<Rightarrow> aud_timestamp l \<le> e)
      \<and> (if superAdminIds d \<noteq> []
         then (if truthy (q_userId q)
               then Some (aud_userId l) = q_userId q \<and> aud_userId l \<notin> set (superAdminIds d)
               else aud_userId l \<notin> set (superAdminIds d))
         else if truthy (q_userId q) then Some (aud_userId l) = q_userId q
         else True))"

text \<open>
  \<open>.sort({ timestamp: -1 }).limit(limit * 1).skip((page - 1) * limit)\<close>: newest first,
  the skip applied before the limit, a limit of 0 meaning none.
\<close>

definition newestFirst :: "audit_doc list \<Rightarrow> audit_doc list" where
  "newestFirst ls = rev (sort_key aud_timestamp ls)"

definition paginate :: "nat \<Rightarrow> nat \<Rightarrow> 'a list \<Rightarrow> 'a list" where
  "paginate page limit xs =
     (let skipped = drop ((page - 1) * limit) xs
      in if limit = 0 then skipped else take limit skipped)"

text \<open>\<open>populate('userId', '... role')\<close> followed by the filter on the populated role.\<close>

definition authorIsSuperAdmin :: "db \<Rightarrow> audit_doc \<Rightarrow> bool" where
  "authorIsSuperAdmin d l =
     (case find (\<lambda>x. usr_id x = aud_userId l) (users d) of
        None \<Rightarrow> False
      | Some x \<Rightarrow> usr_role x = ''SUPER_ADMIN'')"

text \<open>
  audit.controller.js, \<open>getAuditLogs\<close>. A page number of 0 with a positive limit asks
  the store for a negative skip, which it refuses. The reply carries the page and the
  total; the page count is computed from the total.
\<close>

definition getAuditLogs :: "db \<Rightarrow> ('b, audit_query) request \<Rightarrow> reply \<times> db" where
  "getAuditLogs d req =
     (let q = req_query req in
      if q_page q = 0 \<and> q_limit q \<noteq> 0 then (Raised, d)
      else
        (let logs = paginate (q_page q) (q_limit q)
                      (newestFirst (filter (auditQuery d req) (auditLogs d)));
             filteredLogs = filter (\<lambda>l. \<not> authorIsSuperAdmin d l) logs;
             total = length (filter (auditCountQuery d req) (auditLogs d))
         in (Reply 200 (AuditPage filteredLogs total), d)))"

text \<open>audit.controller.js, \<open>getUserAuditLogs\<close> (\<open>:userId\<close> is \<open>req_id\<close>)\<close>

definition getUserAuditLogs :: "db \<Rightarrow> ('b, audit_query) request \<Rightarrow> reply \<times> db" where
  "getUserAuditLogs d req =
     (let q = req_query req in
      if q_page q = 0 \<and> q_limit q \<noteq> 0 then (Raised, d)
      else
        (let matching = filter (\<lambda>l. Some (aud_tenantId l) = req_tenantId req
                                    \<and> aud_userId l = req_id req) (auditLogs d);
             logs = paginate (q_page q) (q_limit q) (newestFirst matching);
             total = length matching
         in (Reply 200 (AuditPage logs total), d)))"

section \<open>Project controller\<close>

text \<open>
  \<open>project.members.map(m => ({ userId: m.userId?.toString() || m.userId.toString(), ... }))\<close>
  throws on a member without a \<open>userId\<close>, and on a \<open>members\<close> value that is truthy but
  no array.
\<close>

definition membersReadable :: "doc \<Rightarrow> bool" where
  "membersReadable project =
     (case getf project ''members'' of
        JArr ms \<Rightarrow> \<not> list_ex (\<lambda>m. nullish m \<or> nullish (field m ''userId'')) ms
      | v \<Rightarrow> \<not> js_truthy v)"

text \<open>
  One element of \<open>req.body.members.map(member => ({ userId: member.userId || member,
  role: member.role || 'MEMBER', joinedAt: member.joinedAt || new Date() }))\<close>; reading a
  property of \<open>null\<close> throws.
\<close>

definition memberOfBody :: "nat \<Rightarrow> jsval \<Rightarrow> jsval option" where
  "memberOfBody now member =
     (if nullish member then None
      else Some (JObj [(''userId'', js_or (field member ''userId'') member),
                      (''role'', js_or (field member ''role'') (JStr ''MEMBER'')),
                      (''joinedAt'', js_or (field member ''joinedAt'') (JNum (int now)))]))"

subsection \<open>The project document in memory\<close>

text \<open>
  What \<open>Project.findOne\<close> hands to the controller is the object mapper's document
  object, not the stored data. The data are its property \<open>_doc\<close>; its flag
  \<open>$isNew\<close> (also reached as \<open>isNew\<close>) tells \<open>save()\<close> whether to insert or
  to update; the setters the schema defines for its paths record which paths were
  modified and whether a value could not be cast. A date is the time it holds.
\<close>

record project_document =
  doc_data :: jsval
  doc_isNew :: bool
  doc_modified :: "string list"
  doc_castError :: bool

definition loaded :: "doc \<Rightarrow> project_document" where
  "loaded project =
     \<lparr>doc_data = JObj project, doc_isNew = False, doc_modified = [], doc_castError = False\<rparr>"

text \<open>
  The paths of \<open>projectSchema\<close> (Project.model.js), after \<open>_id\<close>, which every
  schema has.
\<close>

definition projectPaths :: "string list" where
  "projectPaths =
     [''_id'', ''name'', ''description'', ''tenantId'', ''ownerId'', ''managerId'', ''status'',
      ''priority'', ''startDate'', ''endDate'', ''actualEndDate'', ''budget'', ''spent'',
      ''members'', ''tags'', ''settings'']"

text \<open>
  The casts of the schema types (a string is trimmed, an id, a date or a number is read
  off the value, a member gets an \<open>_id\<close>, the keys a nested object's schema does not
  have are dropped) are the object mapper's: \<open>cast path v\<close> is the value path
  \<open>path\<close> takes when \<open>v\<close> is assigned to it, or nothing when \<open>v\<close> cannot be cast.
\<close>

type_synonym caster = "string \<Rightarrow> jsval \<Rightarrow> jsval option"

text \<open>
  The setter of a schema path: the cast value is written into the data and the path
  marked modified (a path set to the value it has is later written with that value); a
  value that cannot be cast is recorded and leaves the data alone. Writing into data
  that are no object throws.
\<close>

definition setPath ::
  "caster \<Rightarrow> project_document \<Rightarrow> string \<Rightarrow> jsval \<Rightarrow> project_document option" where
  "setPath cast project path v =
     (case doc_data project of
        JObj data \<Rightarrow>
          (case cast path v of
             None \<Rightarrow> Some (project\<lparr>doc_castError := True\<rparr>)
           | Some v' \<Rightarrow>
               Some (project\<lparr>doc_data := JObj (setf data path v'),
                             doc_modified := doc_modified project @ [path]\<rparr>))
      | _ \<Rightarrow> None)"

text \<open>
  \<open>project[key] = v\<close> on the document object. A schema path goes through its setter.
  \<open>_doc\<close> and \<open>isNew\<close> are properties of the object itself: assigning them replaces
  the data, and the flag, without a cast and without marking anything modified. Any
  other key becomes a property of the object that is neither stored nor returned (the
  schema is strict). Keys that shadow a method of the document (\<open>save\<close>,
  \<open>toObject\<close>), its other internals, its virtuals and the paths the object mapper
  maintains itself (\<open>createdAt\<close>, \<open>updatedAt\<close>, \<open>__v\<close>) are not told apart from
  such a key here.
\<close>

definition assignKey ::
  "caster \<Rightarrow> project_document \<Rightarrow> string \<Rightarrow> jsval \<Rightarrow> project_document option" where
  "assignKey cast project key v =
     (if key \<in> set projectPaths then setPath cast project key v
      else if key = ''_doc'' then Some (project\<lparr>doc_data := v\<rparr>)
      else if key = ''isNew'' \<or> key = ''$isNew'' then Some (project\<lparr>doc_isNew := js_truthy v\<rparr>)
      else Some project)"

text \<open>
  \<open>Object.keys(req.body).forEach(key => { if (key !== 'tenantId' && key !== 'ownerId'
  && key !== '_id') project[key] = req.body[key] })\<close>
\<close>

definition assignFields :: "caster \<Rightarrow> project_document \<Rightarrow> doc \<Rightarrow> project_document option" where
  "assignFields cast project body =
     fold (\<lambda>key r. case r of
                      None \<Rightarrow> None
                    | Some p \<Rightarrow>
                        if key \<noteq> ''tenantId'' \<and> key \<noteq> ''ownerId'' \<and> key \<noteq> ''_id''
                        then assignKey cast p key (getf body key) else Some p)
       (map fst body) (Some project)"

text \<open>
  \<open>project.members.map(m => ({ userId: m.userId?.toString() || m.userId.toString(),
  ... }))\<close> right after the assignment of the members: it throws on a member without a
  \<open>userId\<close> and on a value that is no array.
\<close>

definition membersListable :: "jsval \<Rightarrow> bool" where
  "membersListable v =
     (case v of
        JArr ms \<Rightarrow> \<not> list_ex (\<lambda>m. nullish m \<or> nullish (field m ''userId'')) ms
      | _ \<Rightarrow> False)"

text \<open>
  The block \<open>if (req.body.members && Array.isArray(req.body.members)) { project.members =
  req.body.members.map(...); ...; delete req.body.members }\<close>: the document and the body
  after it, or nothing when it throws.
\<close>

definition membersStep ::
  "caster \<Rightarrow> project_document \<Rightarrow> (doc, 'q) request \<Rightarrow> (project_document \<times> doc) option" where
  "membersStep cast project req =
     (case getf (req_body req) ''members'' of
        JArr ms \<Rightarrow>
          (case those (map (memberOfBody (req_time req)) ms) of
             None \<Rightarrow> None
           | Some members \<Rightarrow>
               (case assignKey cast project ''members'' (JArr members) of
                  None \<Rightarrow> None
                | Some project1 \<Rightarrow>
                    if membersListable (field (doc_data project1) ''members'')
                    then Some (project1, delf (req_body req) ''members'')
                    else None))
      | _ \<Rightarrow> Some (project, req_body req))"

text \<open>The update \<open>save()\<close> sends for a document that is not new: the modified paths.\<close>

definition applyModified :: "doc \<Rightarrow> string list \<Rightarrow> doc \<Rightarrow> doc" where
  "applyModified data paths stored = fold (\<lambda>path s. setf s path (getf data path)) paths stored"

text \<open>
  \<open>project.save()\<close>: the data after it and the store, or nothing when it rejects. A
  recorded cast error and a failed validator reject (\<open>valid\<close> is the schema's
  validators on the data), and so do data without an \<open>_id\<close>. A document flagged new
  is inserted as it is, which the store refuses for an \<open>_id\<close> it already has. Any
  other document is sent as an update of its modified paths to the stored document of
  its \<open>_id\<close>, and the save rejects when there is none. The timestamps and the
  version that \<open>save()\<close> maintains beside the schema's paths are left out of the
  data.
\<close>

definition saveProject :: "(doc \<Rightarrow> bool) \<Rightarrow> db \<Rightarrow> project_document \<Rightarrow> (doc \<times> db) option" where
  "saveProject valid d project =
     (case doc_data project of
        JObj data \<Rightarrow>
          if doc_castError project \<or> \<not> valid data \<or> getf data ''_id'' = JUndefined then None
          else if doc_isNew project then
            (if list_ex (\<lambda>p. getf p ''_id'' = getf data ''_id'') (projects d) then None
             else Some (data, d\<lparr>projects := projects d @ [data]\<rparr>))
          else
            (case find (\<lambda>p. getf p ''_id'' = getf data ''_id'') (projects d) of
               None \<Rightarrow> None
             | Some stored \<Rightarrow>
                 Some (data,
                       d\<lparr>projects :=
                           replace_first (\<lambda>p. getf p ''_id'' = getf data ''_id'')
                             (applyModified data (doc_modified project) stored) (projects d)\<rparr>))
      | _ \<Rightarrow> None)"

text \<open>
  The validators \<open>projectSchema\<close> declares: the required paths, the enums and the
  minima (an enum and a minimum pass a path that is unset).
\<close>

definition inEnum :: "string list \<Rightarrow> jsval \<Rightarrow> bool" where
  "inEnum values v = (case v of JUndefined \<Rightarrow> True | JNull \<Rightarrow> True | JStr s \<Rightarrow> s \<in> set values | _ \<Rightarrow> False)"

definition atLeastZero :: "jsval \<Rightarrow> bool" where
  "atLeastZero v = (case v of JNum n \<Rightarrow> 0 \<le> n | _ \<Rightarrow> True)"

definition projectValidators :: "doc \<Rightarrow> bool" where
  "projectValidators p =
     ((case getf p ''name'' of JStr s \<Rightarrow> s \<noteq> [] | _ \<Rightarrow> False)
      \<and> js_truthy (getf p ''tenantId'')
      \<and> js_truthy (getf p ''ownerId'')
      \<and> js_truthy (getf p ''managerId'')
      \<and> inEnum [''PLANNING'', ''IN_PROGRESS'', ''ON_HOLD'', ''COMPLETED'', ''CANCELLED'']
            (getf p ''status'')
      \<and> inEnum [''LOW'', ''MEDIUM'', ''HIGH'', ''CRITICAL''] (getf p ''priority'')
      \<and> atLeastZero (getf p ''budget'')
      \<and> atLeastZero (getf p ''spent'')
      \<and> (case getf p ''members'' of
            JArr ms \<Rightarrow> list_all (\<lambda>m. inEnum [''MEMBER'', ''LEAD'', ''VIEWER''] (field m ''role'')) ms
          | _ \<Rightarrow> True))"

text \<open>
  project.controller.js, \<open>updateProject\<close>. The audit entry names \<open>project._id\<close> as
  the document holds it after the save, and is not written when that is no id. The
  notifications to new members follow the write and are the publisher's work.
\<close>

definition updateProject ::
  "caster \<Rightarrow> (doc \<Rightarrow> bool) \<Rightarrow> db \<Rightarrow> (doc, 'q) request \<Rightarrow> reply \<times> db" where
  "updateProject cast valid d req =
     (case findProject d req of
        None \<Rightarrow> (NotFound ''Project'', d)
      | Some project \<Rightarrow>
          if \<not> membersReadable project then (Raised, d)
          else
            (case membersStep cast (loaded project) req of
               None \<Rightarrow> (Raised, d)
             | Some (project1, body1) \<Rightarrow>
                 (case assignFields cast project1 body1 of
                    None \<Rightarrow> (Raised, d)
                  | Some project2 \<Rightarrow>
                      (case saveProject valid d project2 of
                         None \<Rightarrow> (Raised, d)
                       | Some (data, saved) \<Rightarrow>
                           (case req_user req of
                              None \<Rightarrow> (Raised, saved)
                            | Some u \<Rightarrow>
                                (Reply 200 (ProjectData data),
                                 case oid_of (getf data ''_id'') of
                                   None \<Rightarrow> saved
                                 | Some resourceId \<Rightarrow>
                                     createAuditLog saved (req_tenantId req) (user_id u)
                                       ''UPDATE'' ''PROJECT'' resourceId (req_time req)))))))"

text \<open>The three keys the update loop skips, and their paths in a project document.\<close>

definition guarded :: "string \<Rightarrow> bool" where
  "guarded key = (key = ''tenantId'' \<or> key = ''ownerId'' \<or> key = ''_id'')"

definition protected_view :: "doc \<Rightarrow> jsval \<times> jsval \<times> jsval" where
  "protected_view p = (getf p ''_id'', getf p ''tenantId'', getf p ''ownerId'')"

text \<open>project.controller.js, \<open>deleteProject\<close>\<close>

definition deleteProject :: "db \<Rightarrow> ('b, 'q) request \<Rightarrow> reply \<times> db" where
  "deleteProject d req =
     (case findProject d req of
        None \<Rightarrow> (NotFound ''Project'', d)
      | Some project \<Rightarrow>
          (let taskCount = length (filter (\<lambda>t. Some (task_projectId t) = oid_of (getf project ''_id''))
                                     (tasks d)) in
           if taskCount > 0
           then (Reply 400 (Message ''Cannot delete project with existing tasks''), d)
           else
             (let removed = d\<lparr>projects :=
                                remove_first (\<lambda>p. getf p ''_id'' = getf project ''_id'')
                                  (projects d)\<rparr>
              in case req_user req of
                   None \<Rightarrow> (Raised, removed)
                 | Some u \<Rightarrow>
                     (Reply 200 (Message ''Project deleted successfully''),
                      createAuditLog removed (req_tenantId req) (user_id u)
                        ''DELETE'' ''PROJECT'' (req_id req) (req_time req)))))"

section \<open>Routes\<close>

text \<open>
  Each route is its router's prefix, the route's own middleware and the controller, in
  the order the route files list them.
\<close>

definition route_task_delete :: "db \<Rightarrow> ('b, 'q) request \<Rightarrow> reply \<times> db" where
  "route_task_delete d req =
     serve (next_mw (tenantWorkRouter req) (authorize [''ORG_ADMIN'', ''PROJECT_MANAGER'']))
       deleteTask d"

definition route_task_status :: "db \<Rightarrow> (string, 'q) request \<Rightarrow> reply \<times> db" where
  "route_task_status d req =
     serve (next_mw (tenantWorkRouter req) (restrictToOwnTasks d)) updateTaskStatus d"

definition route_user_get :: "db \<Rightarrow> ('b, 'q) request \<Rightarrow> reply \<times> db" where
  "route_user_get d req = serve (userRouter req) getUserById d"

definition route_user_update :: "db \<Rightarrow> (user_patch, 'q) request \<Rightarrow> reply \<times> db" where
  "route_user_update d req =
     serve (next_mw (userRouter req) (authorize [''SUPER_ADMIN'', ''ORG_ADMIN''])) updateUser d"

definition route_user_delete :: "db \<Rightarrow> ('b, 'q) request \<Rightarrow> reply \<times> db" where
  "route_user_delete d req =
     serve (next_mw (userRouter req) (authorize [''SUPER_ADMIN'', ''ORG_ADMIN''])) deleteUser d"

definition route_user_role :: "db \<Rightarrow> (string, 'q) request \<Rightarrow> reply \<times> db" where
  "route_user_role d req =
     serve (next_mw (userRouter req) (authorize [''SUPER_ADMIN'', ''ORG_ADMIN''])) updateUserRole d"

definition route_permission_get :: "db \<Rightarrow> ('b, 'q) request \<Rightarrow> reply \<times> db" where
  "route_permission_get d req = serve (permissionRouter req) getUserPermissions d"

definition route_permission_update :: "db \<Rightarrow> (permission_matrix, 'q) request \<Rightarrow> reply \<times> db" where
  "route_permission_update d req = serve (permissionRouter req) updateUserPermissions d"

definition route_permission_reset :: "db \<Rightarrow> ('b, 'q) request \<Rightarrow> reply \<times> db" where
  "route_permission_reset d req = serve (permissionRouter req) resetUserPermissions d"

definition route_audit_list :: "db \<Rightarrow> ('b, audit_query) request \<Rightarrow> reply \<times> db" where
  "route_audit_list d req =
     serve (next_mw (tenantWorkRouter req) (authorize [''ORG_ADMIN''])) getAuditLogs d"

definition route_audit_user :: "db \<Rightarrow> ('b, audit_query) request \<Rightarrow> reply \<times> db" where
  "route_audit_user d req =
     serve (next_mw (tenantWorkRouter req) (authorize [''ORG_ADMIN''])) getUserAuditLogs d"

definition route_project_update ::
  "caster \<Rightarrow> (doc \<Rightarrow> bool) \<Rightarrow> db \<Rightarrow> (doc, 'q) request \<Rightarrow> reply \<times> db" where
  "route_project_update cast valid d req =
     serve (next_mw (next_mw (tenantWorkRouter req) (authorize [''ORG_ADMIN'', ''PROJECT_MANAGER'']))
              (restrictToOwnProjects d))
       (updateProject cast valid) d"

definition route_project_delete :: "db \<Rightarrow> ('b, 'q) request \<Rightarrow> reply \<times> db" where
  "route_project_delete d req =
     serve (next_mw (tenantWorkRouter req) (authorize [''ORG_ADMIN''])) deleteProject d"

section \<open>A sample deployment\<close>

text \<open>
  One tenant \<open>t1\<close> with an ORG_ADMIN, a PROJECT_MANAGER and an EMPLOYEE, the platform's
  SUPER_ADMIN, one project the manager manages, one finished task in it, and two audit
  entries of the tenant: one written by the SUPER_ADMIN (who created a user of the
  tenant), one by the ORG_ADMIN. The concrete requests below are evaluated against it.
\<close>

definition root_user :: user_doc where
  "root_user = \<lparr>usr_id = ''u0'', usr_email = ''root@ewpm.com'', usr_firstName = ''Super'',
                 usr_lastName = ''Admin'', usr_role = ''SUPER_ADMIN'', usr_tenantId = None,
                 usr_isActive = True\<rparr>"

definition admin_user :: user_doc where
  "admin_user = \<lparr>usr_id = ''u1'', usr_email = ''ada@t1.com'', usr_firstName = ''Ada'',
                  usr_lastName = ''Admin'', usr_role = ''ORG_ADMIN'', usr_tenantId = Some ''t1'',
                  usr_isActive = True\<rparr>"

definition manager_user :: user_doc where
  "manager_user = \<lparr>usr_id = ''u2'', usr_email = ''pat@t1.com'', usr_firstName = ''Pat'',
                    usr_lastName = ''Manager'', usr_role = ''PROJECT_MANAGER'',
                    usr_tenantId = Some ''t1'', usr_isActive = True\<rparr>"

definition employee_user :: user_doc where
  "employee_user = \<lparr>usr_id = ''u3'', usr_email = ''eve@t1.com'', usr_firstName = ''Eve'',
                     usr_lastName = ''Employee'', usr_role = ''EMPLOYEE'',
                     usr_tenantId = Some ''t1'', usr_isActive = True\<rparr>"

definition apollo :: doc where
  "apollo = [(''_id'', JStr ''p1''), (''name'', JStr ''Apollo''), (''tenantId'', JStr ''t1''),
             (''ownerId'', JStr ''u1''), (''managerId'', JStr ''u2''),
             (''status'', JStr ''IN_PROGRESS''),
             (''members'', JArr [JObj [(''userId'', JStr ''u3''), (''role'', JStr ''MEMBER'')]])]"

definition done_task :: task_doc where
  "done_task = \<lparr>task_id = ''k1'', task_title = ''Ship it'', task_tenantId = ''t1'',
                 task_projectId = ''p1'', task_status = ''DONE'', task_assigneeId = Some ''u3'',
                 task_reporterId = ''u2''\<rparr>"

definition root_entry :: audit_doc where
  "root_entry = \<lparr>aud_tenantId = ''t1'', aud_userId = ''u0'', aud_action = ''CREATE'',
                  aud_resourceType = ''USER'', aud_resourceId = Some ''u1'', aud_timestamp = 10\<rparr>"

definition admin_entry :: audit_doc where
  "admin_entry = \<lparr>aud_tenantId = ''t1'', aud_userId = ''u1'', aud_action = ''CREATE'',
                   aud_resourceType = ''USER'', aud_resourceId = Some ''u2'', aud_timestamp = 20\<rparr>"

definition demo :: db where
  "demo = \<lparr>users = [root_user, admin_user, manager_user, employee_user],
            permissionDocs = [],
            projects = [apollo],
            tasks = [done_task],
            auditLogs = [root_entry, admin_entry]\<rparr>"

text \<open>The token payloads of the four users.\<close>

definition root :: jwt_user where
  "root = \<lparr>user_id = ''u0'', user_role = ''SUPER_ADMIN'', user_tenantId = None\<rparr>"

definition admin :: jwt_user where
  "admin = \<lparr>user_id = ''u1'', user_role = ''ORG_ADMIN'', user_tenantId = Some ''t1''\<rparr>"

definition manager :: jwt_user where
  "manager = \<lparr>user_id = ''u2'', user_role = ''PROJECT_MANAGER'', user_tenantId = Some ''t1''\<rparr>"

definition employee :: jwt_user where
  "employee = \<lparr>user_id = ''u3'', user_role = ''EMPLOYEE'', user_tenantId = Some ''t1''\<rparr>"

text \<open>
  A request of user \<open>u\<close> as the router receives it: the tenant header (if any), the
  route parameter, the body and the query; host \<open>api.example.com\<close>.
\<close>

definition request_of ::
  "jwt_user \<Rightarrow> string option \<Rightarrow> string \<Rightarrow> 'b \<Rightarrow> 'q \<Rightarrow> ('b, 'q) request" where
  "request_of u tenantHeader rid body query =
     \<lparr>req_user = Some u, req_hdr_tenant = tenantHeader, req_qry_tenant = None,
      req_host = Some ''api.example.com'', req_tenantId = None, req_queryFilter = None,
      req_id = rid, req_body = body, req_query = query, req_time = 1000\<rparr>"

text \<open>The same without any tenant indicator: no header, no query parameter, no Host.\<close>

definition bare_request_of :: "jwt_user \<Rightarrow> string \<Rightarrow> 'b \<Rightarrow> 'q \<Rightarrow> ('b, 'q) request" where
  "bare_request_of u rid body query = (request_of u None rid body query)\<lparr>req_host := None\<rparr>"

text \<open>A request as a controller receives it on the tenant routers: \<open>req.tenantId\<close> bound.\<close>

definition bound_request_of ::
  "jwt_user \<Rightarrow> string \<Rightarrow> string \<Rightarrow> 'b \<Rightarrow> 'q \<Rightarrow> ('b, 'q) request" where
  "bound_request_of u tenantId rid body query =
     (request_of u (Some tenantId) rid body query)
       \<lparr>req_tenantId := Some tenantId, req_queryFilter := Some tenantId\<rparr>"

text \<open>The PROJECT_MANAGER defaults with \<open>manageTasks.delete\<close> switched off.\<close>

definition no_task_delete :: permission_matrix where
  "no_task_delete =
     (getDefaultPermissionsForRole ''PROJECT_MANAGER'')
       \<lparr>manageTasks := caps_assign True True True False True\<rparr>"

definition first_page :: audit_query where
  "first_page = \<lparr>q_page = 1, q_limit = 50, q_action = None, q_resourceType = None,
                  q_userId = None, q_startDate = None, q_endDate = None\<rparr>"

text \<open>
  The deployment after the SUPER_ADMIN has promoted the employee \<open>u3\<close> to SUPER_ADMIN
  (\<open>updateUserRole\<close> keeps the user's tenant): a SUPER_ADMIN record inside tenant \<open>t1\<close>.
\<close>

definition promoted_user :: user_doc where
  "promoted_user = employee_user\<lparr>usr_role := ''SUPER_ADMIN''\<rparr>"

definition demo_promoted :: db where
  "demo_promoted = demo\<lparr>users := [root_user, admin_user, manager_user, promoted_user]\<rparr>"

definition rename_patch :: user_patch where
  "rename_patch = \<lparr>patch_email = None, patch_firstName = Some ''Mallory'', patch_lastName = None,
                    patch_role = None, patch_tenantId = None, patch_isActive = None\<rparr>"

text \<open>
  An update body that tries to move the project to another tenant, owner and id, besides
  renaming it and replacing its members.
\<close>

definition migrate_body :: doc where
  "migrate_body = [(''name'', JStr ''Zeus''), (''tenantId'', JStr ''t2''), (''ownerId'', JStr ''u2''),
                   (''_id'', JStr ''p9''), (''members'', JArr [JStr ''u1''])]"

text \<open>A body with a key the schema does not have.\<close>

definition stray_body :: doc where
  "stray_body = [(''foo'', JStr ''bar'')]"

text \<open>
  A body that names no schema path at all: it supplies data of its own for the document
  object, with another id, tenant and owner, and flags the object new.
\<close>

definition replant_body :: doc where
  "replant_body =
     [(''_doc'', JObj [(''_id'', JStr ''p9''), (''name'', JStr ''Zeus''), (''tenantId'', JStr ''t2''),
                      (''ownerId'', JStr ''u2''), (''managerId'', JStr ''u2'')]),
      (''isNew'', JBool True)]"

text \<open>Casts that find every value already of its path's type.\<close>

definition as_given :: caster where
  "as_given path v = Some v"

chapter \<open>Properties\<close>

lemmas demo_defs = demo_def root_user_def admin_user_def manager_user_def employee_user_def
  apollo_def done_task_def root_entry_def admin_entry_def root_def admin_def manager_def employee_def
  request_of_def bare_request_of_def bound_request_of_def

lemmas reply_defs = TenantRequired_def TenantAccessDenied_def SuperAdminScopeViolation_def
  InsufficientCapability_def CannotModifySelf_def NotFound_def

lemmas tenant_defs = resolveTenant_def resolved_tenantId_def tenant_indicator_def or_else_def
  truthy_def subdomain_def tenantScope_def

lemmas router_defs = tenantWorkRouter_def userRouter_def permissionRouter_def next_mw_def
  authenticate_def authorize_def preventSuperAdminTenantWork_def serve_def

lemmas project_update_defs = route_project_update_def restrictToOwnProjects_def isManager_def
  isLeadMember_def updateProject_def membersStep_def assignFields_def assignKey_def setPath_def
  saveProject_def applyModified_def loaded_def projectPaths_def membersListable_def
  projectValidators_def inEnum_def atLeastZero_def as_given_def findProject_def
  membersReadable_def memberOfBody_def getf_def delf_def field_def nullish_def js_or_def
  js_truthy_def oid_of_def protected_view_def createAuditLog_def

subsection \<open>Lists and documents\<close>

lemma find_SomeD: "find P xs = Some x \<Longrightarrow> P x \<and> x \<in> set xs"
  by (induction xs) (auto split: if_splits)

lemma find_replace_first:
  "x \<in> set xs \<Longrightarrow> P x \<Longrightarrow> P y \<Longrightarrow> find P (replace_first P y xs) = Some y"
  by (induction xs) auto

lemma find_append_new:
  "find P xs = None \<Longrightarrow> P y \<Longrightarrow> find P (xs @ [y]) = Some y"
  by (induction xs) (auto split: if_splits)

lemma map_replace_first:
  "(\<And>x. x \<in> set xs \<Longrightarrow> P x \<Longrightarrow> f x = f y) \<Longrightarrow> map f (replace_first P y xs) = map f xs"
  by (induction xs) auto

lemma replace_first_mem:
  "x \<in> set xs \<Longrightarrow> P x \<Longrightarrow> y \<in> set (replace_first P y xs)"
  by (induction xs) auto

lemma those_map_Some:
  "those (map f xs) = Some ys \<Longrightarrow> ys = map (the \<circ> f) xs"
  by (induction xs arbitrary: ys) (auto split: option.splits)

lemma distinct_map_eq:
  "distinct (map f xs) \<Longrightarrow> x \<in> set xs \<Longrightarrow> y \<in> set xs \<Longrightarrow> f x = f y \<Longrightarrow> x = y"
  by (auto simp: distinct_map inj_on_def)

lemma oid_of_Some: "oid_of v = Some s \<longleftrightarrow> v = JStr s"
  by (cases v) (simp_all add: oid_of_def)

lemma getf_setf: "getf (setf d k v) k' = (if k' = k then v else getf d k')"
  by (induction d) (auto simp: getf_def)

lemma getf_delf: "getf (delf d k) k' = (if k' = k then JUndefined else getf d k')"
  by (induction d) (auto simp: getf_def delf_def)

lemma keys_delf: "fst ` set (delf d k) = fst ` set d - {k}"
  by (auto simp: delf_def)

lemma find_distinct_key:
  "distinct (map f xs) \<Longrightarrow> x \<in> set xs \<Longrightarrow> find (\<lambda>y. f y = f x) xs = Some x"
  by (induction xs) auto

lemma getf_applyModified:
  "getf (applyModified data paths stored) k
     = (if k \<in> set paths then getf data k else getf stored k)"
  unfolding applyModified_def
  by (induction paths arbitrary: stored) (auto simp: getf_setf)

section \<open>Role defaults match the table\<close>

lemma getDefaultPermissionsForRole_SUPER_ADMIN:
  "getDefaultPermissionsForRole ''SUPER_ADMIN'' =
     \<lparr>manageTenants = caps True True True True,
      manageUsers = caps True True True True,
      manageProjects = caps False False False False,
      manageTasks = caps_assign False False False False False,
      viewReports = only_read False,
      viewAuditLogs = only_read True\<rparr>"
  by (simp add: getDefaultPermissionsForRole_def defaultPermissions_def)

lemma getDefaultPermissionsForRole_ORG_ADMIN:
  "getDefaultPermissionsForRole ''ORG_ADMIN'' =
     \<lparr>manageTenants = caps False False False False,
      manageUsers = caps True True True True,
      manageProjects = caps True True True True,
      manageTasks = caps_assign True True True True True,
      viewReports = only_read True,
      viewAuditLogs = only_read True\<rparr>"
  by (simp add: getDefaultPermissionsForRole_def defaultPermissions_def)

lemma getDefaultPermissionsForRole_PROJECT_MANAGER:
  "getDefaultPermissionsForRole ''PROJECT_MANAGER'' =
     \<lparr>manageTenants = caps False False False False,
      manageUsers = caps False False False False,
      manageProjects = caps True True True False,
      manageTasks = caps_assign True True True True True,
      viewReports = only_read True,
      viewAuditLogs = only_read False\<rparr>"
  by (simp add: getDefaultPermissionsForRole_def defaultPermissions_def)

lemma getDefaultPermissionsForRole_EMPLOYEE:
  "getDefaultPermissionsForRole ''EMPLOYEE'' =
     \<lparr>manageTenants = caps False False False False,
      manageUsers = caps False False False False,
      manageProjects = caps False True False False,
      manageTasks = caps_assign False True True False False,
      viewReports = only_read False,
      viewAuditLogs = only_read False\<rparr>"
  by (simp add: getDefaultPermissionsForRole_def defaultPermissions_def)

lemmas role_default_rows =
  getDefaultPermissionsForRole_SUPER_ADMIN getDefaultPermissionsForRole_ORG_ADMIN
  getDefaultPermissionsForRole_PROJECT_MANAGER getDefaultPermissionsForRole_EMPLOYEE

lemma allows_SUPER_ADMIN:
  "allows (getDefaultPermissionsForRole ''SUPER_ADMIN'') c opn
     = (opn \<in> set (spec_roleDefaults ''SUPER_ADMIN'' c))"
  by (cases c; cases opn)
     (simp_all add: role_default_rows caps_def caps_assign_def only_read_def CRUD_def)

lemma allows_ORG_ADMIN:
  "allows (getDefaultPermissionsForRole ''ORG_ADMIN'') c opn
     = (opn \<in> set (spec_roleDefaults ''ORG_ADMIN'' c))"
  by (cases c; cases opn)
     (simp_all add: role_default_rows caps_def caps_assign_def only_read_def CRUD_def)

lemma allows_PROJECT_MANAGER:
  "allows (getDefaultPermissionsForRole ''PROJECT_MANAGER'') c opn
     = (opn \<in> set (spec_roleDefaults ''PROJECT_MANAGER'' c))"
  by (cases c; cases opn)
     (simp_all add: role_default_rows caps_def caps_assign_def only_read_def CRUD_def)

lemma allows_EMPLOYEE:
  "allows (getDefaultPermissionsForRole ''EMPLOYEE'') c opn
     = (opn \<in> set (spec_roleDefaults ''EMPLOYEE'' c))"
  by (cases c; cases opn)
     (simp_all add: role_default_rows caps_def caps_assign_def only_read_def CRUD_def)

text \<open>
  C5. The role defaults are a function of the role name alone, and for each of the four
  roles every cell (category, operation) of the matrix the program returns is granted
  exactly when the table of section 4.1 lists the operation for that role and category:
  SUPER_ADMIN has tenant CRUD, user CRUD and audit read; ORG_ADMIN has user, project and
  task CRUD, task assign, report read and audit read; PROJECT_MANAGER has project
  create, read, update, task CRUD and assign, and report read; EMPLOYEE has project read
  and task read and update; nothing else is granted.
\<close>

theorem roleDefaults_match_table:
  "(\<forall>c opn. allows (getDefaultPermissionsForRole ''SUPER_ADMIN'') c opn
       = (opn \<in> set (spec_roleDefaults ''SUPER_ADMIN'' c)))
   \<and> (\<forall>c opn. allows (getDefaultPermissionsForRole ''ORG_ADMIN'') c opn
       = (opn \<in> set (spec_roleDefaults ''ORG_ADMIN'' c)))
   \<and> (\<forall>c opn. allows (getDefaultPermissionsForRole ''PROJECT_MANAGER'') c opn
       = (opn \<in> set (spec_roleDefaults ''PROJECT_MANAGER'' c)))
   \<and> (\<forall>c opn. allows (getDefaultPermissionsForRole ''EMPLOYEE'') c opn
       = (opn \<in> set (spec_roleDefaults ''EMPLOYEE'' c)))"
  by (simp add: allows_SUPER_ADMIN allows_ORG_ADMIN allows_PROJECT_MANAGER allows_EMPLOYEE)

section \<open>Tenant resolution\<close>

text \<open>
  C4. For a request of a principal that is not a SUPER_ADMIN: when the tenant the request
  resolves to differs from the principal's home tenant, \<open>resolveTenant\<close> answers
  TenantAccessDenied (403); an explicit indicator wins over the credential's tenant, and
  the header wins among the indicators, so a tenant header naming another tenant than
  the home tenant is answered TenantAccessDenied; and when \<open>resolveTenant\<close> lets the
  request pass, the request is the one it received with \<open>req.tenantId\<close> set to the home
  tenant, nothing else. The function takes no store and returns none.
\<close>

theorem resolveTenant_isolation:
  assumes "req_user req = Some u" and "user_role u \<noteq> ''SUPER_ADMIN''"
  shows "(truthy (resolved_tenantId req) \<and> resolved_tenantId req \<noteq> user_tenantId u
            \<longrightarrow> resolveTenant req = Inl TenantAccessDenied)
       \<and> (truthy (tenant_indicator req) \<longrightarrow> resolved_tenantId req = tenant_indicator req)
       \<and> (truthy (req_hdr_tenant req) \<longrightarrow> tenant_indicator req = req_hdr_tenant req)
       \<and> (\<forall>B. req_hdr_tenant req = Some B \<and> B \<noteq> [] \<and> user_tenantId u \<noteq> Some B
              \<longrightarrow> resolveTenant req = Inl TenantAccessDenied)
       \<and> (\<forall>req'. resolveTenant req = Inr req' \<longrightarrow> req' = req\<lparr>req_tenantId := user_tenantId u\<rparr>)"
proof (intro conjI impI allI)
  assume "truthy (resolved_tenantId req) \<and> resolved_tenantId req \<noteq> user_tenantId u"
  with assms show "resolveTenant req = Inl TenantAccessDenied"
    by (auto simp: resolveTenant_def Let_def)
next
  assume "truthy (tenant_indicator req)"
  with assms show "resolved_tenantId req = tenant_indicator req"
    by (simp add: resolved_tenantId_def Let_def)
next
  assume "truthy (req_hdr_tenant req)"
  then show "tenant_indicator req = req_hdr_tenant req"
    by (simp add: tenant_indicator_def or_else_def)
next
  fix B
  assume "req_hdr_tenant req = Some B \<and> B \<noteq> [] \<and> user_tenantId u \<noteq> Some B"
  with assms show "resolveTenant req = Inl TenantAccessDenied"
    by (auto simp: resolveTenant_def resolved_tenantId_def tenant_indicator_def or_else_def
          truthy_def Let_def)
next
  fix req'
  assume "resolveTenant req = Inr req'"
  with assms show "req' = req\<lparr>req_tenantId := user_tenantId u\<rparr>"
    by (auto simp: resolveTenant_def Let_def split: if_splits)
qed

theorem resolveTenant_isolation_witness:
  "resolveTenant (request_of manager (Some ''t2'') ''k1'' () ()) = Inl TenantAccessDenied
   \<and> resolved_tenantId (request_of manager (Some ''t2'') ''k1'' () ()) = Some ''t2''
   \<and> resolveTenant (request_of manager (Some ''t1'') ''k1'' () ())
       = Inr ((request_of manager (Some ''t1'') ''k1'' () ())\<lparr>req_tenantId := Some ''t1''\<rparr>)"
  using resolveTenant_isolation [of "request_of manager (Some ''t2'') ''k1'' () ()" manager]
        resolveTenant_isolation [of "request_of manager (Some ''t1'') ''k1'' () ()" manager]
  by (simp add: request_of_def manager_def resolved_tenantId_def tenant_indicator_def
        or_else_def truthy_def resolveTenant_def subdomain_def Let_def)

section \<open>The SUPER_ADMIN guard of the tenant routers\<close>

lemma tenantWorkRouter_superAdmin:
  assumes "req_user req = Some u" and "user_role u = ''SUPER_ADMIN''"
  shows "tenantWorkRouter req
           = Inl (if truthy (resolved_tenantId req) then SuperAdminScopeViolation else TenantRequired)"
  using assms
  by (simp add: tenantWorkRouter_def next_mw_def authenticate_def resolveTenant_def Let_def
        tenantScope_def preventSuperAdminTenantWork_def)

text \<open>
  C3, as the program has it. A request of a SUPER_ADMIN never gets past the prefix of the
  task, project, report and audit routers: \<open>preventSuperAdminTenantWork\<close> answers
  SuperAdminScopeViolation, the prefix answers SuperAdminScopeViolation when the request
  resolves to a tenant and TenantRequired when it resolves to none, and whatever route
  middleware and controller follow, the reply is that one and the store is unchanged.
\<close>

theorem superAdmin_stopped_before_tenant_work:
  assumes "req_user req = Some u" and "user_role u = ''SUPER_ADMIN''"
  shows "preventSuperAdminTenantWork req = Inl SuperAdminScopeViolation
       \<and> tenantWorkRouter req
           = Inl (if truthy (resolved_tenantId req) then SuperAdminScopeViolation else TenantRequired)
       \<and> serve (next_mw (tenantWorkRouter req) mw) controller d
           = (if truthy (resolved_tenantId req) then SuperAdminScopeViolation else TenantRequired, d)"
proof (intro conjI)
  show "preventSuperAdminTenantWork req = Inl SuperAdminScopeViolation"
    using assms by (simp add: preventSuperAdminTenantWork_def)
  show r: "tenantWorkRouter req
       = Inl (if truthy (resolved_tenantId req) then SuperAdminScopeViolation else TenantRequired)"
    using assms by (rule tenantWorkRouter_superAdmin)
  show "serve (next_mw (tenantWorkRouter req) mw) controller d
          = (if truthy (resolved_tenantId req) then SuperAdminScopeViolation else TenantRequired, d)"
    by (simp add: r next_mw_def serve_def)
qed

theorem superAdmin_stopped_witness:
  "route_task_delete demo (request_of root (Some ''t1'') ''k1'' () ()) = (SuperAdminScopeViolation, demo)
   \<and> route_audit_list demo (request_of root (Some ''t1'') [] () first_page) = (SuperAdminScopeViolation, demo)
   \<and> route_project_delete demo (bare_request_of root ''p1'' () ()) = (TenantRequired, demo)"
  using superAdmin_stopped_before_tenant_work
          [of "request_of root (Some ''t1'') ''k1'' () ()" root
              "authorize [''ORG_ADMIN'', ''PROJECT_MANAGER'']" deleteTask demo]
        superAdmin_stopped_before_tenant_work
          [of "request_of root (Some ''t1'') [] () first_page" root
              "authorize [''ORG_ADMIN'']" getAuditLogs demo]
        superAdmin_stopped_before_tenant_work
          [of "bare_request_of root ''p1'' () ()" root
              "authorize [''ORG_ADMIN'']" deleteProject demo]
  by (simp add: route_task_delete_def route_audit_list_def route_project_delete_def
        request_of_def bare_request_of_def root_def tenant_defs Let_def next_mw_def serve_def)

text \<open>
  The user routes have no such guard and authorize SUPER_ADMIN: the SUPER_ADMIN deletes a
  user of tenant \<open>t1\<close>. And on a task route, a SUPER_ADMIN request that names no tenant
  is answered TenantRequired, not SuperAdminScopeViolation.
\<close>

theorem superAdmin_scope_counterexample:
  "fst (route_user_delete demo (request_of root (Some ''t1'') ''u3'' () ()))
     = Reply 200 (Message ''User deleted successfully'')
   \<and> users (snd (route_user_delete demo (request_of root (Some ''t1'') ''u3'' () ())))
     = [root_user, admin_user, manager_user]
   \<and> \<not> denied (fst (route_user_delete demo (request_of root (Some ''t1'') ''u3'' () ())))
   \<and> fst (route_task_delete demo (bare_request_of root ''k1'' () ())) = TenantRequired
   \<and> TenantRequired \<noteq> SuperAdminScopeViolation"
  by (simp add: route_user_delete_def route_task_delete_def router_defs tenant_defs Let_def
        deleteUser_def findUserScoped_def callerHasRole_def createAuditLog_def denied_def
        demo_defs reply_defs)

section \<open>ORG_ADMIN and SUPER_ADMIN user records\<close>

text \<open>
  A SUPER_ADMIN record inside a tenant arises when the SUPER_ADMIN promotes a user of the
  tenant: the sample deployment \<open>demo_promoted\<close> is what that request leaves.
\<close>

lemma promoted_record_arises:
  "users (snd (route_user_role demo (request_of root (Some ''t1'') ''u3'' ''SUPER_ADMIN'' ())))
     = users demo_promoted"
  by (simp add: route_user_role_def router_defs tenant_defs Let_def updateUserRole_def
        findUserScoped_def callerHasRole_def saveUser_def role_enum_def createAuditLog_def
        demo_promoted_def promoted_user_def demo_defs)

lemma findUserScoped_superAdmin_target:
  assumes "\<forall>x\<in>set (users d). usr_id x = req_id req \<longrightarrow> usr_role x = ''SUPER_ADMIN''"
      and "callerHasRole req ''ORG_ADMIN''"
  shows "findUserScoped d req = None"
  using assms by (auto simp: findUserScoped_def find_None_iff)

text \<open>
  C7, as the program has it. When every user record with the target id has the role
  SUPER_ADMIN, the read, update, delete and role-assignment controllers answer an
  ORG_ADMIN caller with 404 "User not found" and leave the store as it is, whatever the
  permission records hold: the query of an ORG_ADMIN excludes SUPER_ADMIN records.
\<close>

theorem orgAdmin_superAdmin_target_not_found:
  assumes "\<forall>x\<in>set (users d). usr_id x = target \<longrightarrow> usr_role x = ''SUPER_ADMIN''"
  shows "(callerHasRole r1 ''ORG_ADMIN'' \<and> req_id r1 = target
            \<longrightarrow> getUserById d r1 = (NotFound ''User'', d))
       \<and> (callerHasRole r2 ''ORG_ADMIN'' \<and> req_id r2 = target
            \<longrightarrow> updateUser d r2 = (NotFound ''User'', d))
       \<and> (callerHasRole r3 ''ORG_ADMIN'' \<and> req_id r3 = target
            \<longrightarrow> deleteUser d r3 = (NotFound ''User'', d))
       \<and> (callerHasRole r4 ''ORG_ADMIN'' \<and> req_id r4 = target
            \<longrightarrow> updateUserRole d r4 = (NotFound ''User'', d))"
  using assms
  by (auto simp: getUserById_def updateUser_def deleteUser_def updateUserRole_def
        findUserScoped_superAdmin_target)

theorem orgAdmin_superAdmin_target_witness:
  "getUserById demo_promoted (bound_request_of admin ''t1'' ''u3'' () ()) = (NotFound ''User'', demo_promoted)
   \<and> updateUser demo_promoted (bound_request_of admin ''t1'' ''u3'' rename_patch ())
       = (NotFound ''User'', demo_promoted)
   \<and> deleteUser demo_promoted (bound_request_of admin ''t1'' ''u3'' () ()) = (NotFound ''User'', demo_promoted)
   \<and> updateUserRole demo_promoted (bound_request_of admin ''t1'' ''u3'' ''EMPLOYEE'' ())
       = (NotFound ''User'', demo_promoted)"
  using orgAdmin_superAdmin_target_not_found
          [of demo_promoted "''u3''"
              "bound_request_of admin ''t1'' ''u3'' () ()"
              "bound_request_of admin ''t1'' ''u3'' rename_patch ()"
              "bound_request_of admin ''t1'' ''u3'' () ()"
              "bound_request_of admin ''t1'' ''u3'' ''EMPLOYEE'' ()"]
  by (simp add: demo_promoted_def promoted_user_def demo_defs callerHasRole_def)

text \<open>
  The reply to the ORG_ADMIN is the 404 of a missing user, not a 403 denial.
\<close>

theorem orgAdmin_superAdmin_target_counterexample:
  "route_user_update demo_promoted (request_of admin (Some ''t1'') ''u3'' rename_patch ())
     = (Reply 404 (Message ''User not found''), demo_promoted)
   \<and> route_user_delete demo_promoted (request_of admin (Some ''t1'') ''u3'' () ())
     = (Reply 404 (Message ''User not found''), demo_promoted)
   \<and> \<not> denied (fst (route_user_update demo_promoted
                         (request_of admin (Some ''t1'') ''u3'' rename_patch ())))"
  by (simp add: route_user_update_def route_user_delete_def router_defs tenant_defs Let_def
        updateUser_def deleteUser_def findUserScoped_def callerHasRole_def denied_def
        demo_promoted_def promoted_user_def demo_defs reply_defs)

section \<open>Permission overrides\<close>

lemma findTask_permissionDocs [simp]:
  "findTask (d\<lparr>permissionDocs := ps\<rparr>) req = findTask d req"
  by (simp add: findTask_def)

lemma notManagedBy_permissionDocs [simp]:
  "notManagedBy (d\<lparr>permissionDocs := ps\<rparr>) pid uid = notManagedBy d pid uid"
  by (simp add: notManagedBy_def findProjectById_def)

lemma deleteTask_permissionDocs:
  "deleteTask (d\<lparr>permissionDocs := ps\<rparr>) req
     = (fst (deleteTask d req), (snd (deleteTask d req))\<lparr>permissionDocs := ps\<rparr>)"
  by (auto simp: deleteTask_def Let_def createAuditLog_def split: option.splits)

lemma serve_permissionDocs:
  assumes "\<And>r. c (d\<lparr>permissionDocs := ps\<rparr>) r = (fst (c d r), (snd (c d r))\<lparr>permissionDocs := ps\<rparr>)"
  shows "serve m c (d\<lparr>permissionDocs := ps\<rparr>)
           = (fst (serve m c d), (snd (serve m c d))\<lparr>permissionDocs := ps\<rparr>)"
  by (cases m) (simp_all add: serve_def assms)

lemma upsertPermission_active:
  assumes "upsertPermission ps u m = Some ps'"
  shows "map_option perm_permissions (find (\<lambda>p. perm_userId p = u \<and> perm_isActive p) ps') = Some m"
proof (cases "find (\<lambda>p. perm_userId p = u \<and> perm_isActive p) ps")
  case None
  with assms show ?thesis
    by (auto simp: upsertPermission_def find_append_new split: if_splits)
next
  case (Some found)
  then have "found \<in> set ps" and "perm_userId found = u \<and> perm_isActive found"
    by (auto simp: find_Some_iff in_set_conv_nth)
  with assms Some show ?thesis
    by (auto simp: upsertPermission_def find_replace_first)
qed

lemma updateUserPermissions_ok:
  assumes "fst (updateUserPermissions d req) = Reply 200 pl"
  shows "\<exists>ps. upsertPermission (permissionDocs d) (req_id req) (req_body req) = Some ps
            \<and> snd (updateUserPermissions d req) = d\<lparr>permissionDocs := ps\<rparr>"
proof (cases "find (\<lambda>x. usr_id x = req_id req) (users d)")
  case None
  with assms show ?thesis by (simp add: updateUserPermissions_def Let_def NotFound_def)
next
  case (Some user)
  show ?thesis
  proof (cases "req_user req")
    case None
    with assms Some show ?thesis by (simp add: updateUserPermissions_def Let_def)
  next
    case u: (Some u)
    show ?thesis
    proof (cases "upsertPermission (permissionDocs d) (req_id req) (req_body req)")
      case None
      with assms Some u show ?thesis
        by (auto simp: updateUserPermissions_def Let_def CannotModifySelf_def split: if_splits)
    next
      case ps: (Some ps)
      with assms Some u show ?thesis
        by (auto simp: updateUserPermissions_def Let_def CannotModifySelf_def split: if_splits)
    qed
  qed
qed

text \<open>
  C1, as the program has it. The task-delete route does not read the permission records:
  with any records \<open>ps\<close> in their place it gives the same reply and the same store
  (carrying \<open>ps\<close>). The matrix \<open>getUserPermissions\<close> reports is the user's active
  override record when there is one, else the role-default matrix; and after a
  successful \<open>updateUserPermissions\<close> the user's active record holds the matrix of the
  request.
\<close>

theorem task_delete_ignores_overrides:
  "route_task_delete (d\<lparr>permissionDocs := ps\<rparr>) req
     = (fst (route_task_delete d req), (snd (route_task_delete d req))\<lparr>permissionDocs := ps\<rparr>)
   \<and> (fst (getUserPermissions d req) = Reply 200 (PermissionData uid m isDefault) \<longrightarrow>
        m = (case activePermission d (req_id req) of
               Some p \<Rightarrow> perm_permissions p
             | None \<Rightarrow> getDefaultPermissionsForRole
                         (usr_role (the (find (\<lambda>x. usr_id x = req_id req) (users d))))))
   \<and> (fst (updateUserPermissions d req') = Reply 200 pl \<longrightarrow>
        map_option perm_permissions
          (activePermission (snd (updateUserPermissions d req')) (req_id req')) = Some (req_body req'))"
proof (intro conjI impI)
  show "route_task_delete (d\<lparr>permissionDocs := ps\<rparr>) req
     = (fst (route_task_delete d req), (snd (route_task_delete d req))\<lparr>permissionDocs := ps\<rparr>)"
    unfolding route_task_delete_def by (rule serve_permissionDocs) (rule deleteTask_permissionDocs)
next
  assume "fst (getUserPermissions d req) = Reply 200 (PermissionData uid m isDefault)"
  then show "m = (case activePermission d (req_id req) of
               Some p \<Rightarrow> perm_permissions p
             | None \<Rightarrow> getDefaultPermissionsForRole
                         (usr_role (the (find (\<lambda>x. usr_id x = req_id req) (users d)))))"
    by (auto simp: getUserPermissions_def Let_def NotFound_def split: option.splits if_splits)
next
  assume "fst (updateUserPermissions d req') = Reply 200 pl"
  from updateUserPermissions_ok [OF this] obtain ps' where
    up: "upsertPermission (permissionDocs d) (req_id req') (req_body req') = Some ps'"
    and st: "snd (updateUserPermissions d req') = d\<lparr>permissionDocs := ps'\<rparr>" by blast
  from upsertPermission_active [OF up] show "map_option perm_permissions
          (activePermission (snd (updateUserPermissions d req')) (req_id req')) = Some (req_body req')"
    by (simp add: st activePermission_def)
qed

theorem task_delete_ignores_overrides_witness:
  "route_task_delete
     (demo\<lparr>permissionDocs := [\<lparr>perm_userId = ''u2'', perm_permissions = no_task_delete,
                                 perm_isActive = True\<rparr>]\<rparr>)
     (request_of manager (Some ''t1'') ''k1'' () ())
   = (fst (route_task_delete demo (request_of manager (Some ''t1'') ''k1'' () ())),
      (snd (route_task_delete demo (request_of manager (Some ''t1'') ''k1'' () ())))
        \<lparr>permissionDocs := [\<lparr>perm_userId = ''u2'', perm_permissions = no_task_delete,
                                 perm_isActive = True\<rparr>]\<rparr>)
   \<and> fst (getUserPermissions demo (request_of root None ''u2'' () ()))
       = Reply 200 (PermissionData ''u2'' (getDefaultPermissionsForRole ''PROJECT_MANAGER'') True)
   \<and> map_option perm_permissions
         (activePermission
            (snd (updateUserPermissions demo (bound_request_of admin ''t1'' ''u2'' no_task_delete ())))
            ''u2'') = Some no_task_delete"
proof -
  have g: "fst (getUserPermissions demo (request_of root None ''u2'' () ()))
       = Reply 200 (PermissionData ''u2'' (getDefaultPermissionsForRole ''PROJECT_MANAGER'') True)"
    by (simp add: getUserPermissions_def activePermission_def Let_def demo_defs)
  have u: "fst (updateUserPermissions demo (bound_request_of admin ''t1'' ''u2'' no_task_delete ()))
       = Reply 200 (PermissionData ''u2'' no_task_delete False)"
    by (simp add: updateUserPermissions_def upsertPermission_def Let_def demo_defs)
  from task_delete_ignores_overrides
         [where d = demo
            and ps = "[\<lparr>perm_userId = ''u2'', perm_permissions = no_task_delete, perm_isActive = True\<rparr>]"
            and req = "request_of manager (Some ''t1'') ''k1'' () ()"
            and req' = "bound_request_of admin ''t1'' ''u2'' no_task_delete ()"
            and pl = "PermissionData ''u2'' no_task_delete False"]
  show ?thesis
    by (simp add: g u) (simp add: bound_request_of_def request_of_def)
qed

text \<open>
  The ORG_ADMIN sets an override for the PROJECT_MANAGER with \<open>manageTasks.delete\<close> off;
  the override is stored and reported, and the manager still deletes the task of the
  project they manage.
\<close>

lemma override_set_eval:
  "route_permission_update demo (request_of admin (Some ''t1'') ''u2'' no_task_delete ())
     = (Reply 200 (PermissionData ''u2'' no_task_delete False),
        demo\<lparr>permissionDocs := [\<lparr>perm_userId = ''u2'', perm_permissions = no_task_delete,
                                     perm_isActive = True\<rparr>]\<rparr>)"
  by (simp add: route_permission_update_def router_defs tenant_defs Let_def
        updateUserPermissions_def upsertPermission_def demo_defs reply_defs)

theorem override_not_consulted_counterexample:
  "fst (route_task_delete
          (snd (route_permission_update demo (request_of admin (Some ''t1'') ''u2'' no_task_delete ())))
          (request_of manager (Some ''t1'') ''k1'' () ()))
     = Reply 200 (Message ''Task deleted successfully'')
   \<and> tasks (snd (route_task_delete
          (snd (route_permission_update demo (request_of admin (Some ''t1'') ''u2'' no_task_delete ())))
          (request_of manager (Some ''t1'') ''k1'' () ()))) = []
   \<and> fst (route_permission_get
          (snd (route_permission_update demo (request_of admin (Some ''t1'') ''u2'' no_task_delete ())))
          (request_of admin (Some ''t1'') ''u2'' () ()))
     = Reply 200 (PermissionData ''u2'' no_task_delete False)
   \<and> \<not> allows no_task_delete TASK Delete
   \<and> allows (getDefaultPermissionsForRole ''PROJECT_MANAGER'') TASK Delete
   \<and> \<not> denied (Reply 200 (Message ''Task deleted successfully''))"
proof -
  have del: "route_task_delete
          (demo\<lparr>permissionDocs := [\<lparr>perm_userId = ''u2'', perm_permissions = no_task_delete,
                                     perm_isActive = True\<rparr>]\<rparr>)
          (request_of manager (Some ''t1'') ''k1'' () ())
        = (Reply 200 (Message ''Task deleted successfully''),
           createAuditLog
             (demo\<lparr>permissionDocs := [\<lparr>perm_userId = ''u2'', perm_permissions = no_task_delete,
                                         perm_isActive = True\<rparr>], tasks := []\<rparr>)
             (Some ''t1'') ''u2'' ''DELETE'' ''TASK'' ''k1'' 1000)"
    by (simp add: route_task_delete_def router_defs tenant_defs Let_def deleteTask_def findTask_def
          notManagedBy_def findProjectById_def isManager_def isLeadMember_def getf_def oid_of_def
          demo_defs reply_defs)
  have get: "fst (route_permission_get
          (demo\<lparr>permissionDocs := [\<lparr>perm_userId = ''u2'', perm_permissions = no_task_delete,
                                     perm_isActive = True\<rparr>]\<rparr>)
          (request_of admin (Some ''t1'') ''u2'' () ()))
     = Reply 200 (PermissionData ''u2'' no_task_delete False)"
    by (simp add: route_permission_get_def router_defs tenant_defs Let_def getUserPermissions_def
          activePermission_def demo_defs reply_defs)
  have caps: "\<not> delete (manageTasks no_task_delete)"
    "delete (manageTasks (getDefaultPermissionsForRole ''PROJECT_MANAGER''))"
    by (simp_all add: no_task_delete_def caps_assign_def getDefaultPermissionsForRole_def
          defaultPermissions_def)
  show ?thesis
    by (simp add: override_set_eval del get caps createAuditLog_def denied_def)
qed

text \<open>
  C6. \<open>resetUserPermissions\<close> has no self-modification check: the SUPER_ADMIN resets
  the permissions of their own id, the reply is 200 and an override record of their own
  is written. \<open>updateUserPermissions\<close> refuses the same principal with
  CannotModifySelf; an ORG_ADMIN naming their own id is refused by the role-scope rule
  before the self check is reached.
\<close>

theorem reset_of_own_permissions_goes_through:
  "route_permission_reset demo (request_of root None ''u0'' () ())
     = (Reply 200 (PermissionData ''u0'' (getDefaultPermissionsForRole ''SUPER_ADMIN'') False),
        demo\<lparr>permissionDocs :=
               [\<lparr>perm_userId = ''u0'',
                 perm_permissions = getDefaultPermissionsForRole ''SUPER_ADMIN'',
                 perm_isActive = True\<rparr>]\<rparr>)
   \<and> route_permission_update demo (request_of root None ''u0'' no_task_delete ())
     = (CannotModifySelf, demo)
   \<and> route_permission_update demo (request_of admin (Some ''t1'') ''u1'' no_task_delete ())
     = (Reply 403 (Message ''You can only manage permissions for PROJECT_MANAGER and EMPLOYEE users''),
        demo)"
  by (simp add: route_permission_reset_def route_permission_update_def router_defs tenant_defs
        Let_def resetUserPermissions_def updateUserPermissions_def upsertPermission_def
        demo_defs reply_defs)

section \<open>Task status\<close>

lemma canTransitionTo_table:
  "canTransitionTo (t\<lparr>task_status := ''TODO''\<rparr>) s \<longleftrightarrow> s \<in> {''IN_PROGRESS'', ''CANCELLED''}"
  "canTransitionTo (t\<lparr>task_status := ''IN_PROGRESS''\<rparr>) s \<longleftrightarrow> s \<in> {''IN_REVIEW'', ''BLOCKED'', ''CANCELLED''}"
  "canTransitionTo (t\<lparr>task_status := ''IN_REVIEW''\<rparr>) s \<longleftrightarrow> s \<in> {''DONE'', ''IN_PROGRESS''}"
  "canTransitionTo (t\<lparr>task_status := ''DONE''\<rparr>) s \<longleftrightarrow> s \<in> {''IN_PROGRESS''}"
  "canTransitionTo (t\<lparr>task_status := ''BLOCKED''\<rparr>) s \<longleftrightarrow> s \<in> {''IN_PROGRESS'', ''CANCELLED''}"
  "canTransitionTo (t\<lparr>task_status := ''CANCELLED''\<rparr>) s \<longleftrightarrow> False"
  by (simp_all add: canTransitionTo_def validTransitions_def)

text \<open>
  C2. The status-update route does not consult \<open>canTransitionTo\<close>: the ORG_ADMIN moves
  the finished task from DONE to BLOCKED, a transition the table does not have; the
  reply is 200 and the task is stored as BLOCKED.
\<close>

theorem status_update_skips_transition_table:
  "route_task_status demo (request_of admin (Some ''t1'') ''k1'' ''BLOCKED'' ())
     = (Reply 200 (TaskData (done_task\<lparr>task_status := ''BLOCKED''\<rparr>)),
        demo\<lparr>tasks := [done_task\<lparr>task_status := ''BLOCKED''\<rparr>],
             auditLogs := [root_entry, admin_entry,
                           \<lparr>aud_tenantId = ''t1'', aud_userId = ''u1'', aud_action = ''UPDATE'',
                            aud_resourceType = ''TASK'', aud_resourceId = Some ''k1'',
                            aud_timestamp = 1000\<rparr>]\<rparr>)
   \<and> task_status done_task = ''DONE''
   \<and> \<not> canTransitionTo done_task ''BLOCKED''"
  by (simp add: route_task_status_def router_defs tenant_defs restrictToOwnTasks_def Let_def
        updateTaskStatus_def findTask_def status_enum_def createAuditLog_def
        canTransitionTo_def validTransitions_def demo_defs reply_defs)

section \<open>Audit listings\<close>

text \<open>
  An audit entry of a tenant written by a SUPER_ADMIN arises when the SUPER_ADMIN works on
  the tenant's users, here deleting one: the entry carries the tenant and the
  SUPER_ADMIN's id, like \<open>root_entry\<close> of the sample deployment.
\<close>

lemma superAdmin_entry_arises:
  "auditLogs (snd (route_user_delete demo (request_of root (Some ''t1'') ''u3'' () ())))
     = auditLogs demo @
       [\<lparr>aud_tenantId = ''t1'', aud_userId = ''u0'', aud_action = ''DELETE'',
         aud_resourceType = ''USER'', aud_resourceId = Some ''u3'', aud_timestamp = 1000\<rparr>]"
  by (simp add: route_user_delete_def router_defs tenant_defs Let_def deleteUser_def
        findUserScoped_def callerHasRole_def createAuditLog_def demo_defs)

lemma auditQuery_excludes:
  "auditQuery d req l \<Longrightarrow> aud_userId l \<notin> set (superAdminIds d)"
  by (auto simp: auditQuery_def Let_def split: if_splits)

lemma auditCountQuery_eq: "auditCountQuery d req = auditQuery d req"
  by (rule ext) (simp add: auditCountQuery_def auditQuery_def)

lemma authorIsSuperAdmin_ids:
  assumes "authorIsSuperAdmin d l"
  shows "aud_userId l \<in> set (superAdminIds d)"
proof -
  from assms obtain x where "find (\<lambda>x. usr_id x = aud_userId l) (users d) = Some x"
    and "usr_role x = ''SUPER_ADMIN''"
    by (auto simp: authorIsSuperAdmin_def split: option.splits)
  then have "x \<in> set (users d)" and "usr_id x = aud_userId l" and "usr_role x = ''SUPER_ADMIN''"
    by (auto dest: find_SomeD)
  then show ?thesis by (force simp: superAdminIds_def)
qed

lemma paginate_subset: "set (paginate p n xs) \<subseteq> set xs"
  by (auto simp: paginate_def Let_def dest: in_set_takeD in_set_dropD)

lemma getAuditLogs_excludes_superAdmins:
  assumes "getAuditLogs d req = (Reply 200 (AuditPage logs cnt), d')"
  shows "\<forall>l \<in> set logs. aud_userId l \<notin> set (superAdminIds d) \<and> \<not> authorIsSuperAdmin d l"
    and "cnt = length (filter (\<lambda>l. auditQuery d req l \<and> aud_userId l \<notin> set (superAdminIds d))
                           (auditLogs d))"
    and "d' = d"
proof -
  from assms have nz: "\<not> (q_page (req_query req) = 0 \<and> q_limit (req_query req) \<noteq> 0)"
    by (auto simp: getAuditLogs_def Let_def split: if_splits)
  from assms nz have logs: "logs = filter (\<lambda>l. \<not> authorIsSuperAdmin d l)
      (paginate (q_page (req_query req)) (q_limit (req_query req))
         (newestFirst (filter (auditQuery d req) (auditLogs d))))"
    and cnt: "cnt = length (filter (auditCountQuery d req) (auditLogs d))" and "d' = d"
    by (auto simp: getAuditLogs_def Let_def)
  show "d' = d" by fact
  show "\<forall>l \<in> set logs. aud_userId l \<notin> set (superAdminIds d) \<and> \<not> authorIsSuperAdmin d l"
  proof
    fix l assume "l \<in> set logs"
    then have "\<not> authorIsSuperAdmin d l"
      and "l \<in> set (paginate (q_page (req_query req)) (q_limit (req_query req))
         (newestFirst (filter (auditQuery d req) (auditLogs d))))"
      by (simp_all add: logs)
    then have "auditQuery d req l"
      using paginate_subset by (fastforce simp: newestFirst_def)
    with \<open>\<not> authorIsSuperAdmin d l\<close>
    show "aud_userId l \<notin> set (superAdminIds d) \<and> \<not> authorIsSuperAdmin d l"
      by (simp add: auditQuery_excludes)
  qed
  show "cnt = length (filter (\<lambda>l. auditQuery d req l \<and> aud_userId l \<notin> set (superAdminIds d))
                           (auditLogs d))"
    unfolding cnt auditCountQuery_eq
    by (rule arg_cong [where f = length], rule filter_cong) (auto dest: auditQuery_excludes)
qed

text \<open>
  C8. \<open>getUserAuditLogs\<close> applies no SUPER_ADMIN exclusion: listing the entries of the
  SUPER_ADMIN's id in tenant \<open>t1\<close> returns the SUPER_ADMIN's entry with a total of 1.
  \<open>getAuditLogs\<close> filtered by the same id returns the empty page with a total of 0.
\<close>

theorem user_audit_listing_shows_superAdmin:
  "route_audit_user demo (request_of admin (Some ''t1'') ''u0'' () first_page)
     = (Reply 200 (AuditPage [root_entry] 1), demo)
   \<and> route_audit_list demo (request_of admin (Some ''t1'') [] () (first_page\<lparr>q_userId := Some ''u0''\<rparr>))
     = (Reply 200 (AuditPage [] 0), demo)
   \<and> authorIsSuperAdmin demo root_entry"
  by (simp add: route_audit_user_def route_audit_list_def router_defs tenant_defs Let_def
        getUserAuditLogs_def getAuditLogs_def auditQuery_def auditCountQuery_def superAdminIds_def
        authorIsSuperAdmin_def newestFirst_def paginate_def first_page_def demo_defs reply_defs)

section \<open>Project update\<close>

lemma findProject_Some:
  assumes "findProject d req = Some project"
  shows "project \<in> set (projects d)" and "getf project ''_id'' = JStr (req_id req)"
    and "oid_of (getf project ''tenantId'') = req_tenantId req"
  using assms by (auto simp: findProject_def find_Some_iff oid_of_Some in_set_conv_nth)

lemma projects_createAuditLog [simp]:
  "projects (createAuditLog d t u a r i n) = projects d"
  by (simp add: createAuditLog_def split: option.splits)

lemma not_guarded_members: "\<not> guarded ''members''"
  unfolding guarded_def by simp

lemma guarded_id: "guarded ''_id''"
  unfolding guarded_def by simp

lemma guarded_tenant_owner: "guarded ''tenantId''" "guarded ''ownerId''"
  unfolding guarded_def by simp_all

lemma members_path: "''members'' \<in> set projectPaths"
  by (simp add: projectPaths_def)

lemma protected_view_eqI:
  "(\<And>k. guarded k \<Longrightarrow> getf a k = getf b k) \<Longrightarrow> protected_view a = protected_view b"
  by (simp add: protected_view_def guarded_id guarded_tenant_owner)

text \<open>One assignment of a schema path to a document whose data are an object.\<close>

lemma assignKey_path:
  assumes "key \<in> set projectPaths" and "doc_data m = JObj data"
  shows "assignKey cast m key v
           = Some (case cast key v of
                     None \<Rightarrow> m\<lparr>doc_castError := True\<rparr>
                   | Some v' \<Rightarrow> m\<lparr>doc_data := JObj (setf data key v'),
                                   doc_modified := doc_modified m @ [key]\<rparr>)"
  using assms by (simp add: assignKey_def setPath_def split: option.splits)

text \<open>
  The loop over keys that are all schema paths: the data stay an object, the flag is
  not touched, only keys of the loop that are not guarded are modified, every path that
  is not modified keeps the value of \<open>base\<close>, and when no cast failed each such key
  holds the cast of the body's value.
\<close>

lemma assign_loop:
  assumes "set ks \<subseteq> set projectPaths"
    and "doc_data m = JObj data"
    and "\<forall>k. k \<notin> set (doc_modified m) \<longrightarrow> getf data k = getf base k"
  shows "\<exists>m' data'.
           fold (\<lambda>key r. case r of
                            None \<Rightarrow> None
                          | Some p \<Rightarrow>
                              if key \<noteq> ''tenantId'' \<and> key \<noteq> ''ownerId'' \<and> key \<noteq> ''_id''
                              then assignKey cast p key (getf body key) else Some p)
             ks (Some m) = Some m'
         \<and> doc_data m' = JObj data'
         \<and> doc_isNew m' = doc_isNew m
         \<and> (doc_castError m \<longrightarrow> doc_castError m')
         \<and> set (doc_modified m') \<subseteq> set (doc_modified m) \<union> {k \<in> set ks. \<not> guarded k}
         \<and> (\<forall>k. k \<notin> set (doc_modified m') \<longrightarrow> getf data' k = getf base k)
         \<and> (\<forall>k. k \<notin> {k \<in> set ks. \<not> guarded k} \<longrightarrow> getf data' k = getf data k)
         \<and> (\<not> doc_castError m' \<longrightarrow>
              (\<forall>k \<in> set ks. \<not> guarded k \<longrightarrow> cast k (getf body k) = Some (getf data' k)))"
  using assms
proof (induction ks arbitrary: m data)
  case Nil
  then show ?case by simp
next
  case (Cons key ks)
  let ?step = "\<lambda>key r. case r of
                            None \<Rightarrow> None
                          | Some p \<Rightarrow>
                              if key \<noteq> ''tenantId'' \<and> key \<noteq> ''ownerId'' \<and> key \<noteq> ''_id''
                              then assignKey cast p key (getf body key) else Some p"
  from Cons.prems have key: "key \<in> set projectPaths" and ks: "set ks \<subseteq> set projectPaths"
    by simp_all
  show ?case
  proof (cases "guarded key")
    case True
    then have step: "?step key (Some m) = Some m" by (auto simp: guarded_def)
    from Cons.IH [OF ks Cons.prems(2) Cons.prems(3)] obtain m' data' where
      r: "fold ?step ks (Some m) = Some m'" "doc_data m' = JObj data'"
         "doc_isNew m' = doc_isNew m" "doc_castError m \<longrightarrow> doc_castError m'"
         "set (doc_modified m') \<subseteq> set (doc_modified m) \<union> {k \<in> set ks. \<not> guarded k}"
         "\<forall>k. k \<notin> set (doc_modified m') \<longrightarrow> getf data' k = getf base k"
         "\<forall>k. k \<notin> {k \<in> set ks. \<not> guarded k} \<longrightarrow> getf data' k = getf data k"
         "\<not> doc_castError m' \<longrightarrow>
              (\<forall>k \<in> set ks. \<not> guarded k \<longrightarrow> cast k (getf body k) = Some (getf data' k))"
      by blast
    show ?thesis
      apply (rule exI [of _ m'], rule exI [of _ data'])
      using r True step by (auto simp del: fold_simps simp add: fold_Cons)
  next
    case False
    then have ng: "key \<noteq> ''tenantId'' \<and> key \<noteq> ''ownerId'' \<and> key \<noteq> ''_id''"
      by (simp add: guarded_def)
    show ?thesis
    proof (cases "cast key (getf body key)")
      case None
      let ?m1 = "m\<lparr>doc_castError := True\<rparr>"
      have step: "?step key (Some m) = Some ?m1"
        using ng None assignKey_path [OF key Cons.prems(2), of cast "getf body key"] by simp
      have d1: "doc_data ?m1 = JObj data" using Cons.prems(2) by simp
      have b1: "\<forall>k. k \<notin> set (doc_modified ?m1) \<longrightarrow> getf data k = getf base k"
        using Cons.prems(3) by simp
      from Cons.IH [OF ks d1 b1] obtain m' data' where
        r: "fold ?step ks (Some ?m1) = Some m'" "doc_data m' = JObj data'"
           "doc_isNew m' = doc_isNew ?m1" "doc_castError ?m1 \<longrightarrow> doc_castError m'"
           "set (doc_modified m') \<subseteq> set (doc_modified ?m1) \<union> {k \<in> set ks. \<not> guarded k}"
           "\<forall>k. k \<notin> set (doc_modified m') \<longrightarrow> getf data' k = getf base k"
           "\<forall>k. k \<notin> {k \<in> set ks. \<not> guarded k} \<longrightarrow> getf data' k = getf data k"
        by blast
      have ce: "doc_castError m'" using r(4) by simp
      show ?thesis
        apply (rule exI [of _ m'], rule exI [of _ data'])
        using r ce step by (auto simp del: fold_simps simp add: fold_Cons)
    next
      case (Some v')
      let ?m1 = "m\<lparr>doc_data := JObj (setf data key v'),
                   doc_modified := doc_modified m @ [key]\<rparr>"
      have step: "?step key (Some m) = Some ?m1"
        using ng Some assignKey_path [OF key Cons.prems(2), of cast "getf body key"] by simp
      have d1: "doc_data ?m1 = JObj (setf data key v')" by simp
      have b1: "\<forall>k. k \<notin> set (doc_modified ?m1) \<longrightarrow> getf (setf data key v') k = getf base k"
        using Cons.prems(3) by (simp add: getf_setf)
      from Cons.IH [OF ks d1 b1] obtain m' data' where
        r: "fold ?step ks (Some ?m1) = Some m'" "doc_data m' = JObj data'"
           "doc_isNew m' = doc_isNew ?m1" "doc_castError ?m1 \<longrightarrow> doc_castError m'"
           "set (doc_modified m') \<subseteq> set (doc_modified ?m1) \<union> {k \<in> set ks. \<not> guarded k}"
           "\<forall>k. k \<notin> set (doc_modified m') \<longrightarrow> getf data' k = getf base k"
           "\<forall>k. k \<notin> {k \<in> set ks. \<not> guarded k} \<longrightarrow> getf data' k = getf (setf data key v') k"
           "\<not> doc_castError m' \<longrightarrow>
              (\<forall>k \<in> set ks. \<not> guarded k \<longrightarrow> cast k (getf body k) = Some (getf data' k))"
        by blast
      have keyval: "\<not> doc_castError m' \<longrightarrow> cast key (getf body key) = Some (getf data' key)"
      proof (cases "key \<in> set ks")
        case True
        with r(8) False show ?thesis by blast
      next
        case False
        with r(7) have "getf data' key = v'" by (simp add: getf_setf)
        with Some show ?thesis by simp
      qed
      have frame: "\<forall>k. k \<notin> {k \<in> set (key # ks). \<not> guarded k} \<longrightarrow> getf data' k = getf data k"
        using r(7) False by (auto simp: getf_setf)
      have modi: "set (doc_modified m') \<subseteq> set (doc_modified m) \<union> {k \<in> set (key # ks). \<not> guarded k}"
        using r(5) False by auto
      have vals: "\<not> doc_castError m' \<longrightarrow>
              (\<forall>k \<in> set (key # ks). \<not> guarded k \<longrightarrow> cast k (getf body k) = Some (getf data' k))"
        using r(8) keyval by auto
      have fold: "fold ?step (key # ks) (Some m) = Some m'"
        using r(1) step by (simp del: fold_simps add: fold_Cons)
      show ?thesis
        apply (rule exI [of _ m'], rule exI [of _ data'])
        using fold r(2,3,4,6) frame modi vals by simp
    qed
  qed
qed

text \<open>
  What the two assignment steps leave of a loaded project when every key of the body is
  a schema path.
\<close>

lemma assignments_of_paths:
  assumes paths: "fst ` set (req_body req) \<subseteq> set projectPaths"
    and step: "membersStep cast (loaded project) req = Some (project1, body1)"
  shows "\<exists>project2 data.
           assignFields cast project1 body1 = Some project2
         \<and> doc_data project2 = JObj data
         \<and> \<not> doc_isNew project2
         \<and> (\<forall>k. guarded k \<longrightarrow> k \<notin> set (doc_modified project2))
         \<and> (\<forall>k. k \<notin> set (doc_modified project2) \<longrightarrow> getf data k = getf project k)
         \<and> (\<not> doc_castError project2 \<longrightarrow>
              (\<forall>k \<in> fst ` set (req_body req). \<not> guarded k \<and> k \<noteq> ''members''
                  \<longrightarrow> cast k (getf (req_body req) k) = Some (getf data k))
            \<and> (\<forall>ms. getf (req_body req) ''members'' = JArr ms \<longrightarrow>
                  cast ''members'' (JArr (map (the \<circ> memberOfBody (req_time req)) ms))
                    = Some (getf data ''members''))
            \<and> (''members'' \<in> fst ` set (req_body req)
                 \<and> (\<forall>ms. getf (req_body req) ''members'' \<noteq> JArr ms)
                  \<longrightarrow> cast ''members'' (getf (req_body req) ''members'')
                        = Some (getf data ''members'')))"
proof (cases "\<exists>ms. getf (req_body req) ''members'' = JArr ms")
  case False
  then have eq: "project1 = loaded project" "body1 = req_body req"
    using step by (auto simp: membersStep_def split: jsval.splits)
  have ks: "set (map fst (req_body req)) \<subseteq> set projectPaths" using paths by simp
  have d0: "doc_data (loaded project) = JObj project" by (simp add: loaded_def)
  have b0: "\<forall>k. k \<notin> set (doc_modified (loaded project)) \<longrightarrow> getf project k = getf project k"
    by simp
  from assign_loop [OF ks d0 b0, of cast "req_body req"] obtain m' data' where
    r: "assignFields cast (loaded project) (req_body req) = Some m'"
       "doc_data m' = JObj data'" "doc_isNew m' = doc_isNew (loaded project)"
       "set (doc_modified m') \<subseteq> set (doc_modified (loaded project))
            \<union> {k \<in> set (map fst (req_body req)). \<not> guarded k}"
       "\<forall>k. k \<notin> set (doc_modified m') \<longrightarrow> getf data' k = getf project k"
       "\<not> doc_castError m' \<longrightarrow>
          (\<forall>k \<in> set (map fst (req_body req)). \<not> guarded k
               \<longrightarrow> cast k (getf (req_body req) k) = Some (getf data' k))"
    unfolding assignFields_def by blast
  have g: "\<forall>k. guarded k \<longrightarrow> k \<notin> set (doc_modified m')"
    using r(4) by (auto simp: loaded_def)
  have n: "\<not> doc_isNew m'" using r(3) by (simp add: loaded_def)
  have vals: "\<not> doc_castError m' \<longrightarrow>
              (\<forall>k \<in> fst ` set (req_body req). \<not> guarded k \<and> k \<noteq> ''members''
                  \<longrightarrow> cast k (getf (req_body req) k) = Some (getf data' k))"
    using r(6) by auto
  have oth: "\<not> doc_castError m' \<longrightarrow> ''members'' \<in> fst ` set (req_body req)
               \<longrightarrow> cast ''members'' (getf (req_body req) ''members'')
                        = Some (getf data' ''members'')"
    using r(6) not_guarded_members by force
  show ?thesis
    apply (rule exI [of _ m'], rule exI [of _ data'])
    using r(1,2,5) g n False eq vals oth by simp
next
  case True
  then obtain ms where ms: "getf (req_body req) ''members'' = JArr ms" by blast
  let ?mapped = "JArr (map (the \<circ> memberOfBody (req_time req)) ms)"
  from step ms obtain members where
    th: "those (map (memberOfBody (req_time req)) ms) = Some members"
    and as: "assignKey cast (loaded project) ''members'' (JArr members) = Some project1"
    and b1: "body1 = delf (req_body req) ''members''"
    by (auto simp: membersStep_def split: option.splits if_splits)
  from those_map_Some [OF th] have members: "JArr members = ?mapped" by simp
  have d0: "doc_data (loaded project) = JObj project" by (simp add: loaded_def)
  have ks: "set (map fst body1) \<subseteq> set projectPaths"
    using paths b1 by (auto simp: keys_delf)
  have nomem: "''members'' \<notin> set (map fst body1)" using b1 by (simp add: keys_delf)
  show ?thesis
  proof (cases "cast ''members'' ?mapped")
    case None
    then have p1: "project1 = (loaded project)\<lparr>doc_castError := True\<rparr>"
      using as members assignKey_path [OF members_path d0, of cast ?mapped] by simp
    have d1: "doc_data project1 = JObj project" using p1 by (simp add: loaded_def)
    have m1: "\<forall>k. k \<notin> set (doc_modified project1) \<longrightarrow> getf project k = getf project k"
      by simp
    from assign_loop [OF ks d1 m1, of cast body1] obtain m' data' where
      r: "assignFields cast project1 body1 = Some m'"
         "doc_data m' = JObj data'" "doc_isNew m' = doc_isNew project1"
         "doc_castError project1 \<longrightarrow> doc_castError m'"
         "set (doc_modified m') \<subseteq> set (doc_modified project1)
              \<union> {k \<in> set (map fst body1). \<not> guarded k}"
         "\<forall>k. k \<notin> set (doc_modified m') \<longrightarrow> getf data' k = getf project k"
      unfolding assignFields_def by blast
    have ce: "doc_castError m'" using r(4) p1 by simp
    have g: "\<forall>k. guarded k \<longrightarrow> k \<notin> set (doc_modified m')"
      using r(5) p1 by (auto simp: loaded_def)
    have n: "\<not> doc_isNew m'" using r(3) p1 by (simp add: loaded_def)
    show ?thesis
      apply (rule exI [of _ m'], rule exI [of _ data'])
      using r(1,2,6) g n ce by simp
  next
    case (Some v')
    then have p1: "project1 = (loaded project)\<lparr>doc_data := JObj (setf project ''members'' v'),
                      doc_modified := doc_modified (loaded project) @ [''members'']\<rparr>"
      using as members assignKey_path [OF members_path d0, of cast ?mapped] by simp
    have d1: "doc_data project1 = JObj (setf project ''members'' v')" using p1 by simp
    have m1: "\<forall>k. k \<notin> set (doc_modified project1)
                \<longrightarrow> getf (setf project ''members'' v') k = getf project k"
      using p1 by (simp add: getf_setf)
    from assign_loop [OF ks d1 m1, of cast body1] obtain m' data' where
      r: "assignFields cast project1 body1 = Some m'"
         "doc_data m' = JObj data'" "doc_isNew m' = doc_isNew project1"
         "set (doc_modified m') \<subseteq> set (doc_modified project1)
              \<union> {k \<in> set (map fst body1). \<not> guarded k}"
         "\<forall>k. k \<notin> set (doc_modified m') \<longrightarrow> getf data' k = getf project k"
         "\<forall>k. k \<notin> {k \<in> set (map fst body1). \<not> guarded k}
              \<longrightarrow> getf data' k = getf (setf project ''members'' v') k"
         "\<not> doc_castError m' \<longrightarrow>
            (\<forall>k \<in> set (map fst body1). \<not> guarded k
                 \<longrightarrow> cast k (getf body1 k) = Some (getf data' k))"
      unfolding assignFields_def by blast
    have g: "\<forall>k. guarded k \<longrightarrow> k \<notin> set (doc_modified m')"
      using r(4) p1 not_guarded_members by (auto simp: loaded_def)
    have n: "\<not> doc_isNew m'" using r(3) p1 by (simp add: loaded_def)
    have mem: "getf data' ''members'' = v'"
      using r(6) nomem by (simp add: getf_setf not_guarded_members)
    have vals: "\<not> doc_castError m' \<longrightarrow>
              (\<forall>k \<in> fst ` set (req_body req). \<not> guarded k \<and> k \<noteq> ''members''
                  \<longrightarrow> cast k (getf (req_body req) k) = Some (getf data' k))"
      using r(7) b1 by (auto simp: keys_delf getf_delf)
    show ?thesis
      apply (rule exI [of _ m'], rule exI [of _ data'])
      using r(1,2,5) g n mem vals Some ms by simp
  qed
qed

lemma updateProject_cases:
  obtains
    (unchanged) "snd (updateProject cast valid d req) = d"
      "\<And>p'. fst (updateProject cast valid d req) \<noteq> Reply 200 (ProjectData p')"
  | (saved) project project1 body1 project2 data saved where
      "findProject d req = Some project"
      "membersStep cast (loaded project) req = Some (project1, body1)"
      "assignFields cast project1 body1 = Some project2"
      "saveProject valid d project2 = Some (data, saved)"
      "projects (snd (updateProject cast valid d req)) = projects saved"
      "\<And>p'. fst (updateProject cast valid d req) = Reply 200 (ProjectData p') \<Longrightarrow> p' = data"
proof (cases "findProject d req")
  case None
  then show ?thesis by (intro unchanged) (simp_all add: updateProject_def NotFound_def)
next
  case (Some project)
  show ?thesis
  proof (cases "membersReadable project")
    case False
    with Some show ?thesis by (intro unchanged) (simp_all add: updateProject_def)
  next
    case True
    show ?thesis
    proof (cases "membersStep cast (loaded project) req")
      case None
      with Some True show ?thesis by (intro unchanged) (simp_all add: updateProject_def)
    next
      case step: (Some pb)
      obtain project1 body1 where pb: "pb = (project1, body1)" by (cases pb)
      show ?thesis
      proof (cases "assignFields cast project1 body1")
        case None
        with Some True step pb show ?thesis
          by (intro unchanged) (simp_all add: updateProject_def)
      next
        case assigned: (Some project2)
        show ?thesis
        proof (cases "saveProject valid d project2")
          case None
          with Some True step pb assigned show ?thesis
            by (intro unchanged) (simp_all add: updateProject_def)
        next
          case written: (Some ds)
          obtain data saved where ds: "ds = (data, saved)" by (cases ds)
          show ?thesis
          proof (rule saved)
            show "findProject d req = Some project" by (rule Some)
            show "membersStep cast (loaded project) req = Some (project1, body1)"
              using step pb by simp
            show "assignFields cast project1 body1 = Some project2" by (rule assigned)
            show "saveProject valid d project2 = Some (data, saved)" using written ds by simp
            show "projects (snd (updateProject cast valid d req)) = projects saved"
              using Some True step pb assigned written ds
              by (cases "req_user req") (simp_all add: updateProject_def split: option.splits)
            show "\<And>p'. fst (updateProject cast valid d req) = Reply 200 (ProjectData p')
                    \<Longrightarrow> p' = data"
              using Some True step pb assigned written ds
              by (cases "req_user req") (simp_all add: updateProject_def)
          qed
        qed
      qed
    qed
  qed
qed

text \<open>
  Saving a document that is not new, whose data keep the \<open>_id\<close> of a stored project
  and differ from that project in modified paths only.
\<close>

lemma saveProject_update:
  assumes uniq: "distinct (map (\<lambda>p. getf p ''_id'') (projects d))"
    and mem: "project \<in> set (projects d)"
    and dat: "doc_data m = JObj data" and old: "\<not> doc_isNew m"
    and base: "\<forall>k. k \<notin> set (doc_modified m) \<longrightarrow> getf data k = getf project k"
    and g: "\<forall>k. guarded k \<longrightarrow> k \<notin> set (doc_modified m)"
    and sv: "saveProject valid d m = Some (data', saved)"
  shows "data' = data" and "\<not> doc_castError m"
    and "map protected_view (projects saved) = map protected_view (projects d)"
    and "\<exists>s \<in> set (projects saved). \<forall>k. getf s k = getf data k"
proof -
  let ?P = "\<lambda>p. getf p ''_id'' = getf data ''_id''"
  let ?w = "applyModified data (doc_modified m) project"
  have id: "getf data ''_id'' = getf project ''_id''" using base g guarded_id by blast
  have found: "find ?P (projects d) = Some project"
    using find_distinct_key [OF uniq mem] id by simp
  from sv dat old found show "data' = data" and "\<not> doc_castError m"
    by (auto simp: saveProject_def split: if_splits)
  from sv dat old found have saved: "projects saved = replace_first ?P ?w (projects d)"
    by (auto simp: saveProject_def split: if_splits)
  have w: "\<forall>k. getf ?w k = getf data k"
    using base by (simp add: getf_applyModified)
  have pw: "protected_view ?w = protected_view project"
    by (rule protected_view_eqI) (use g in \<open>simp add: getf_applyModified\<close>)
  show "map protected_view (projects saved) = map protected_view (projects d)"
    unfolding saved
  proof (rule map_replace_first)
    fix x assume x: "x \<in> set (projects d)" and "getf x ''_id'' = getf data ''_id''"
    then have "getf x ''_id'' = getf project ''_id''" using id by simp
    from distinct_map_eq [OF uniq x mem this] show "protected_view x = protected_view ?w"
      using pw by simp
  qed
  have "?w \<in> set (projects saved)"
    unfolding saved using mem id by (intro replace_first_mem [of project]) simp_all
  with w show "\<exists>s \<in> set (projects saved). \<forall>k. getf s k = getf data k" by blast
qed

text \<open>
  C9. In a collection whose \<open>_id\<close>s are distinct, for a body whose keys are all paths
  of the project schema, \<open>updateProject\<close> leaves the \<open>_id\<close>, \<open>tenantId\<close> and
  \<open>ownerId\<close> of every stored project as they were, whatever the body supplies for
  them, for every cast and every validator of the object mapper. When it answers 200,
  the project it returns is the one the route names, a stored project holds the same
  value at every path, and each other key of the body holds the schema's cast of the
  value supplied: \<open>members\<close> given as an array the cast of the member objects the
  controller builds, every other key (and \<open>members\<close> given as anything else) the cast
  of the body's value.
\<close>

theorem updateProject_schema_paths_keep_tenant_owner_id:
  assumes uniq: "distinct (map (\<lambda>p. getf p ''_id'') (projects d))"
    and paths: "fst ` set (req_body req) \<subseteq> set projectPaths"
  shows "map protected_view (projects (snd (updateProject cast valid d req)))
           = map protected_view (projects d)
   \<and> (fst (updateProject cast valid d req) = Reply 200 (ProjectData p') \<longrightarrow>
        getf p' ''_id'' = JStr (req_id req)
        \<and> (\<exists>s \<in> set (projects (snd (updateProject cast valid d req))). \<forall>k. getf s k = getf p' k)
        \<and> (\<forall>k \<in> fst ` set (req_body req). \<not> guarded k \<and> k \<noteq> ''members''
              \<longrightarrow> cast k (getf (req_body req) k) = Some (getf p' k))
        \<and> (\<forall>ms. getf (req_body req) ''members'' = JArr ms \<longrightarrow>
              cast ''members'' (JArr (map (the \<circ> memberOfBody (req_time req)) ms))
                = Some (getf p' ''members''))
        \<and> (''members'' \<in> fst ` set (req_body req)
             \<and> (\<forall>ms. getf (req_body req) ''members'' \<noteq> JArr ms)
              \<longrightarrow> cast ''members'' (getf (req_body req) ''members'') = Some (getf p' ''members'')))"
proof (cases rule: updateProject_cases [of cast valid d req])
  case unchanged
  then show ?thesis by simp
next
  case (saved project project1 body1 project2 data saved)
  from assignments_of_paths [OF paths saved(2)] saved(3) obtain data0 where
    a: "doc_data project2 = JObj data0" "\<not> doc_isNew project2"
       "\<forall>k. guarded k \<longrightarrow> k \<notin> set (doc_modified project2)"
       "\<forall>k. k \<notin> set (doc_modified project2) \<longrightarrow> getf data0 k = getf project k"
       "\<not> doc_castError project2 \<longrightarrow>
              (\<forall>k \<in> fst ` set (req_body req). \<not> guarded k \<and> k \<noteq> ''members''
                  \<longrightarrow> cast k (getf (req_body req) k) = Some (getf data0 k))
            \<and> (\<forall>ms. getf (req_body req) ''members'' = JArr ms \<longrightarrow>
                  cast ''members'' (JArr (map (the \<circ> memberOfBody (req_time req)) ms))
                    = Some (getf data0 ''members''))
            \<and> (''members'' \<in> fst ` set (req_body req)
                 \<and> (\<forall>ms. getf (req_body req) ''members'' \<noteq> JArr ms)
                  \<longrightarrow> cast ''members'' (getf (req_body req) ''members'')
                        = Some (getf data0 ''members''))"
    by auto
  note fp = findProject_Some [OF saved(1)]
  note sp = saveProject_update [OF uniq fp(1) a(1) a(2) a(4) a(3) saved(4)]
  have frame: "map protected_view (projects (snd (updateProject cast valid d req)))
                 = map protected_view (projects d)"
    using sp(3) saved(5) by simp
  have id: "getf data0 ''_id'' = JStr (req_id req)"
    using a(3) a(4) guarded_id fp(2) by metis
  have stored: "\<exists>s \<in> set (projects (snd (updateProject cast valid d req))).
                   \<forall>k. getf s k = getf data0 k"
    using sp(4) saved(5) by simp
  have reply: "fst (updateProject cast valid d req) = Reply 200 (ProjectData p') \<Longrightarrow> p' = data0"
    using saved(6) sp(1) by simp
  show ?thesis
    using frame id stored reply a(5) sp(2) by blast
qed

text \<open>
  The manager's request on the sample project with a body that renames it, replaces its
  members and supplies another tenant, owner and id.
\<close>

theorem updateProject_schema_paths_witness:
  "distinct (map (\<lambda>p. getf p ''_id'') (projects demo))
   \<and> fst ` set migrate_body \<subseteq> set projectPaths
   \<and> fst (updateProject as_given projectValidators demo
            (bound_request_of manager ''t1'' ''p1'' migrate_body ()))
       = Reply 200 (ProjectData
           [(''_id'', JStr ''p1''), (''name'', JStr ''Zeus''), (''tenantId'', JStr ''t1''),
            (''ownerId'', JStr ''u1''), (''managerId'', JStr ''u2''),
            (''status'', JStr ''IN_PROGRESS''),
            (''members'', JArr [JObj [(''userId'', JStr ''u1''), (''role'', JStr ''MEMBER''),
                                      (''joinedAt'', JNum 1000)]])])
   \<and> map protected_view
         (projects (snd (updateProject as_given projectValidators demo
                           (bound_request_of manager ''t1'' ''p1'' migrate_body ()))))
       = [(JStr ''p1'', JStr ''t1'', JStr ''u1'')]"
  using updateProject_schema_paths_keep_tenant_owner_id
          [of demo "bound_request_of manager ''t1'' ''p1'' migrate_body ()"
              as_given projectValidators]
  by (simp add: updateProject_def membersStep_def assignFields_def assignKey_def setPath_def
        saveProject_def applyModified_def loaded_def projectPaths_def membersListable_def
        projectValidators_def inEnum_def atLeastZero_def as_given_def
        findProject_def membersReadable_def memberOfBody_def
        getf_def delf_def field_def nullish_def js_or_def js_truthy_def oid_of_def
        protected_view_def migrate_body_def demo_defs bound_request_of_def request_of_def
        manager_def createAuditLog_def Let_def)

text \<open>
  The claim as the specification words it covers every body and has every other
  supplied field applied. Two requests of the manager on the sample project answer
  otherwise, both with 200. The key \<open>foo\<close> is no schema path: the project returned
  has no \<open>foo\<close>. The keys \<open>_doc\<close> and \<open>isNew\<close> are none of the three the loop
  skips: the data supplied replace the document's, the document is saved as a new one,
  and the store holds a second project with the \<open>_id\<close>, \<open>tenantId\<close> and
  \<open>ownerId\<close> of the body, which is the project returned.
\<close>

theorem updateProject_unlisted_keys_counterexample:
  "fst (route_project_update as_given projectValidators demo
          (request_of manager (Some ''t1'') ''p1'' stray_body ()))
     = Reply 200 (ProjectData apollo)
   \<and> getf stray_body ''foo'' = JStr ''bar'' \<and> getf apollo ''foo'' = JUndefined
   \<and> fst (route_project_update as_given projectValidators demo
            (request_of manager (Some ''t1'') ''p1'' replant_body ()))
       = Reply 200 (ProjectData
           [(''_id'', JStr ''p9''), (''name'', JStr ''Zeus''), (''tenantId'', JStr ''t2''),
            (''ownerId'', JStr ''u2''), (''managerId'', JStr ''u2'')])
   \<and> map protected_view (projects demo) = [(JStr ''p1'', JStr ''t1'', JStr ''u1'')]
   \<and> map protected_view
         (projects (snd (route_project_update as_given projectValidators demo
                           (request_of manager (Some ''t1'') ''p1'' replant_body ()))))
       = [(JStr ''p1'', JStr ''t1'', JStr ''u1''), (JStr ''p9'', JStr ''t2'', JStr ''u2'')]"
  by (simp add: project_update_defs router_defs tenant_defs reply_defs demo_defs
        stray_body_def replant_body_def Let_def)

section \<open>Project delete\<close>

text \<open>
  C10. For a project of the tenant that has at least one task, \<open>deleteProject\<close> answers
  400 "Cannot delete project with existing tasks" and leaves the store as it is. When it
  answers "Project deleted successfully" the project had no task, the tasks are as they
  were and the project is removed; and with no task (and a principal) it does answer so.
\<close>

theorem deleteProject_requires_no_tasks:
  assumes "findProject d req = Some project"
  shows "(list_ex (\<lambda>t. Some (task_projectId t) = oid_of (getf project ''_id'')) (tasks d)
           \<longrightarrow> deleteProject d req
                 = (Reply 400 (Message ''Cannot delete project with existing tasks''), d))
       \<and> (fst (deleteProject d req) = Reply 200 (Message ''Project deleted successfully'')
           \<longrightarrow> \<not> list_ex (\<lambda>t. Some (task_projectId t) = oid_of (getf project ''_id'')) (tasks d)
               \<and> tasks (snd (deleteProject d req)) = tasks d
               \<and> projects (snd (deleteProject d req))
                   = remove_first (\<lambda>p. getf p ''_id'' = getf project ''_id'') (projects d))
       \<and> (\<not> list_ex (\<lambda>t. Some (task_projectId t) = oid_of (getf project ''_id'')) (tasks d)
             \<and> req_user req \<noteq> None
           \<longrightarrow> fst (deleteProject d req) = Reply 200 (Message ''Project deleted successfully''))"
  using assms
  by (auto simp: deleteProject_def Let_def createAuditLog_def list_ex_iff filter_empty_conv
        split: option.splits)

theorem deleteProject_requires_no_tasks_witness:
  "deleteProject demo (bound_request_of admin ''t1'' ''p1'' () ())
     = (Reply 400 (Message ''Cannot delete project with existing tasks''), demo)
   \<and> fst (deleteProject (demo\<lparr>tasks := []\<rparr>) (bound_request_of admin ''t1'' ''p1'' () ()))
     = Reply 200 (Message ''Project deleted successfully'')
   \<and> projects (snd (deleteProject (demo\<lparr>tasks := []\<rparr>) (bound_request_of admin ''t1'' ''p1'' () ()))) = []"
  using deleteProject_requires_no_tasks
          [of demo "bound_request_of admin ''t1'' ''p1'' () ()" apollo]
        deleteProject_requires_no_tasks
          [of "demo\<lparr>tasks := []\<rparr>" "bound_request_of admin ''t1'' ''p1'' () ()" apollo]
  by (simp add: findProject_def oid_of_def getf_def demo_defs)

end
